theory Spec2Isabelle
  imports Complex_Main
begin

section \<open>Data model\<close>

text \<open>
  The programme is a thin layer of Python over numpy and Open3D.  Floating-point
  numbers are idealised: a finite double is a real number, arithmetic on finite values
  is exact, and the IEEE special values that numpy produces without raising
  (\<open>nan\<close>, \<open>inf\<close>, \<open>-inf\<close>) are kept as values of their own.  Rounding,
  overflow and the sign of zero are outside the model.
\<close>

datatype npfloat = Fin real | PosInf | NegInf | NaN

type_synonym vec3 = "real \<times> real \<times> real"
type_synonym fvec3 = "npfloat \<times> npfloat \<times> npfloat"

definition fin3 :: "vec3 \<Rightarrow> fvec3" where
  "fin3 p = (case p of (x, y, z) \<Rightarrow> (Fin x, Fin y, Fin z))"

text \<open>The exceptions the source raises itself or lets through from its libraries.\<close>

datatype py_error = FileNotFoundError string | ValueError string | RuntimeError string

text \<open>\<open>o3d.geometry.PointCloud\<close> and \<open>o3d.geometry.TriangleMesh\<close>, by the fields used.\<close>

record PointCloud =
  points :: "fvec3 list"
  normals :: "fvec3 list"
  colors :: "fvec3 list"

record TriangleMesh =
  vertices :: "fvec3 list"
  triangles :: "(nat \<times> nat \<times> nat) list"
  vertex_normals :: "fvec3 list"
  vertex_colors :: "fvec3 list"

definition new_PointCloud :: PointCloud where
  "new_PointCloud = \<lparr>points = [], normals = [], colors = []\<rparr>"

definition has_points :: "PointCloud \<Rightarrow> bool" where
  "has_points pcd = (points pcd \<noteq> [])"

definition has_normals :: "PointCloud \<Rightarrow> bool" where
  "has_normals pcd = (points pcd \<noteq> [] \<and> length (normals pcd) = length (points pcd))"

definition has_triangles :: "TriangleMesh \<Rightarrow> bool" where
  "has_triangles m = (vertices m \<noteq> [] \<and> triangles m \<noteq> [])"

section \<open>Vectors over the reals\<close>

definition vadd :: "vec3 \<Rightarrow> vec3 \<Rightarrow> vec3" where
  "vadd p q = (case p of (a, b, c) \<Rightarrow> case q of (d, e, f) \<Rightarrow> (a + d, b + e, c + f))"

definition smul :: "real \<Rightarrow> vec3 \<Rightarrow> vec3" where
  "smul s p = (case p of (a, b, c) \<Rightarrow> (s * a, s * b, s * c))"

definition norm3 :: "vec3 \<Rightarrow> real" where
  "norm3 p = (case p of (a, b, c) \<Rightarrow> sqrt (a * a + b * b + c * c))"

section \<open>PointSource: the tetrahedron generator\<close>

text \<open>
  \<open>generate_tetrahedron_point_cloud\<close> (utils.py and pyramid\_pc.py, same body).
  The random generator is a sequence \<open>rng\<close> of samples together with the position of
  the next one; \<open>np.random.uniform(0, 1, m)\<close> takes the next \<open>m\<close> samples.
\<close>

definition tetra_vertices :: "vec3 list" where
  "tetra_vertices = [(0, 0, 0), (1, 0, 0), (0, 1, 0), (1/2, 1/2, 1)]"

definition tetra_faces :: "(nat \<times> nat \<times> nat) list" where
  "tetra_faces = [(0, 1, 3), (1, 2, 3), (2, 0, 3), (0, 2, 1)]"

definition uniform :: "(nat \<Rightarrow> real) \<Rightarrow> nat \<Rightarrow> nat \<Rightarrow> real list" where
  "uniform rng pos m = map rng [pos ..< pos + m]"

definition bary_point :: "vec3 \<Rightarrow> vec3 \<Rightarrow> vec3 \<Rightarrow> real \<times> real \<Rightarrow> vec3" where
  "bary_point v0 v1 v2 uv =
     (case uv of (u0, w0) \<Rightarrow>
        let mask = (u0 + w0 > 1);
            u = (if mask then 1 - u0 else u0);
            v = (if mask then 1 - w0 else w0);
            w = 1 - u - v
        in vadd (vadd (smul w v0) (smul u v1)) (smul v v2))"

definition sample_face :: "(nat \<Rightarrow> real) \<Rightarrow> nat \<Rightarrow> nat \<Rightarrow> nat \<times> nat \<times> nat \<Rightarrow> vec3 list" where
  "sample_face rng pos m face =
     (case face of (i0, i1, i2) \<Rightarrow>
        let v0 = tetra_vertices ! i0; v1 = tetra_vertices ! i1; v2 = tetra_vertices ! i2;
            u = uniform rng pos m;
            v = uniform rng (pos + m) m
        in map (bary_point v0 v1 v2) (zip u v))"

fun sample_faces :: "(nat \<Rightarrow> real) \<Rightarrow> nat \<Rightarrow> nat \<Rightarrow> (nat \<times> nat \<times> nat) list \<Rightarrow> vec3 list list" where
  "sample_faces rng pos m [] = []"
| "sample_faces rng pos m (face # faces) =
     sample_face rng pos m face # sample_faces rng (pos + 2 * m) m faces"

definition tetrahedron_points :: "(nat \<Rightarrow> real) \<Rightarrow> int \<Rightarrow> py_error + vec3 list" where
  "tetrahedron_points rng num_points =
     (let points_per_face = num_points div 4 in
      if points_per_face < 0 then Inl (ValueError ''negative dimensions are not allowed'')
      else
        let pts = concat (sample_faces rng 0 (nat points_per_face) tetra_faces) in
        if int (length pts) > num_points then Inr (take (nat num_points) pts)
        else if int (length pts) < num_points then
          (let extra = num_points - int (length pts) in Inr (pts @ take (nat extra) pts))
        else Inr pts)"

definition generate_tetrahedron_point_cloud :: "(nat \<Rightarrow> real) \<Rightarrow> int \<Rightarrow> py_error + PointCloud" where
  "generate_tetrahedron_point_cloud rng num_points =
     (case tetrahedron_points rng num_points of
        Inl e \<Rightarrow> Inl e
      | Inr pts \<Rightarrow> Inr (new_PointCloud\<lparr>points := map fin3 pts\<rparr>))"

text \<open>
  The convex hull of the four vertices, as convex combinations, and the same set by
  its four bounding half-spaces (which can be evaluated).
\<close>

definition convex_hull4 :: "vec3 \<Rightarrow> bool" where
  "convex_hull4 p = (\<exists>a b c d. 0 \<le> a \<and> 0 \<le> b \<and> 0 \<le> c \<and> 0 \<le> d \<and> a + b + c + d = 1 \<and>
     p = vadd (vadd (vadd (smul a (tetra_vertices ! 0)) (smul b (tetra_vertices ! 1)))
                    (smul c (tetra_vertices ! 2))) (smul d (tetra_vertices ! 3)))"

definition in_tetrahedron :: "vec3 \<Rightarrow> bool" where
  "in_tetrahedron p = (case p of (x, y, z) \<Rightarrow> 0 \<le> z \<and> z / 2 \<le> x \<and> z / 2 \<le> y \<and> x + y \<le> 1)"

section \<open>numpy arithmetic on the special values\<close>

text \<open>
  What numpy computes where an operand is not finite or a divisor is zero.  No
  operation here raises: numpy only issues a warning.
\<close>

fun np_neg :: "npfloat \<Rightarrow> npfloat" where
  "np_neg (Fin a) = Fin (- a)"
| "np_neg PosInf = NegInf"
| "np_neg NegInf = PosInf"
| "np_neg NaN = NaN"

fun np_add :: "npfloat \<Rightarrow> npfloat \<Rightarrow> npfloat" where
  "np_add (Fin a) (Fin b) = Fin (a + b)"
| "np_add NaN b = NaN"
| "np_add a NaN = NaN"
| "np_add PosInf NegInf = NaN"
| "np_add NegInf PosInf = NaN"
| "np_add PosInf b = PosInf"
| "np_add a PosInf = PosInf"
| "np_add NegInf b = NegInf"
| "np_add a NegInf = NegInf"

definition np_sub :: "npfloat \<Rightarrow> npfloat \<Rightarrow> npfloat" where
  "np_sub a b = np_add a (np_neg b)"

fun np_sign :: "npfloat \<Rightarrow> real" where
  "np_sign (Fin a) = sgn a"
| "np_sign PosInf = 1"
| "np_sign NegInf = - 1"
| "np_sign NaN = 0"

definition signed_inf :: "real \<Rightarrow> npfloat" where
  "signed_inf s = (if s = 0 then NaN else if 0 < s then PosInf else NegInf)"

fun np_mul :: "npfloat \<Rightarrow> npfloat \<Rightarrow> npfloat" where
  "np_mul (Fin a) (Fin b) = Fin (a * b)"
| "np_mul NaN b = NaN"
| "np_mul a NaN = NaN"
| "np_mul a b = signed_inf (np_sign a * np_sign b)"

fun np_div :: "npfloat \<Rightarrow> npfloat \<Rightarrow> npfloat" where
  "np_div (Fin a) (Fin b) = (if b \<noteq> 0 then Fin (a / b) else signed_inf (sgn a))"
| "np_div NaN b = NaN"
| "np_div a NaN = NaN"
| "np_div (Fin a) b = Fin 0"
| "np_div a (Fin b) = signed_inf (np_sign a * (if b < 0 then - 1 else 1))"
| "np_div a b = NaN"

fun np_sqrt :: "npfloat \<Rightarrow> npfloat" where
  "np_sqrt (Fin a) = (if a < 0 then NaN else Fin (sqrt a))"
| "np_sqrt PosInf = PosInf"
| "np_sqrt NegInf = NaN"
| "np_sqrt NaN = NaN"

fun np_maximum :: "npfloat \<Rightarrow> npfloat \<Rightarrow> npfloat" where
  "np_maximum (Fin a) (Fin b) = Fin (max a b)"
| "np_maximum NaN b = NaN"
| "np_maximum a NaN = NaN"
| "np_maximum PosInf b = PosInf"
| "np_maximum a PosInf = PosInf"
| "np_maximum NegInf b = b"
| "np_maximum a NegInf = a"

definition np_sum :: "npfloat list \<Rightarrow> npfloat" where
  "np_sum xs = foldl np_add (Fin 0) xs"

text \<open>\<open>np.mean\<close>: the sum over the count; on an empty array that is \<open>0/0\<close>, hence \<open>nan\<close>.\<close>

definition np_mean :: "npfloat list \<Rightarrow> npfloat" where
  "np_mean xs = np_div (np_sum xs) (Fin (real (length xs)))"

text \<open>\<open>np.max\<close> has no identity: it raises on an empty array.\<close>

definition np_max :: "npfloat list \<Rightarrow> py_error + npfloat" where
  "np_max xs = (case xs of
       [] \<Rightarrow> Inl (ValueError ''zero-size array to reduction operation maximum which has no identity'')
     | x # rest \<Rightarrow> Inr (foldl np_maximum x rest))"

definition fsub :: "fvec3 \<Rightarrow> fvec3 \<Rightarrow> fvec3" where
  "fsub p q = (case p of (a, b, c) \<Rightarrow> case q of (d, e, f) \<Rightarrow> (np_sub a d, np_sub b e, np_sub c f))"

definition fdiv :: "fvec3 \<Rightarrow> npfloat \<Rightarrow> fvec3" where
  "fdiv p s = (case p of (a, b, c) \<Rightarrow> (np_div a s, np_div b s, np_div c s))"

definition fscale :: "npfloat \<Rightarrow> fvec3 \<Rightarrow> fvec3" where
  "fscale s p = (case p of (a, b, c) \<Rightarrow> (np_mul s a, np_mul s b, np_mul s c))"

text \<open>\<open>np.linalg.norm(points, axis=1)\<close>, for one row.\<close>

definition np_norm :: "fvec3 \<Rightarrow> npfloat" where
  "np_norm p = (case p of (a, b, c) \<Rightarrow>
     np_sqrt (np_add (np_add (np_mul a a) (np_mul b b)) (np_mul c c)))"

text \<open>\<open>points.mean(axis=0)\<close>: the mean of each column.\<close>

definition mean_axis0 :: "fvec3 list \<Rightarrow> fvec3" where
  "mean_axis0 ps = (np_mean (map fst ps), np_mean (map (fst \<circ> snd) ps), np_mean (map (snd \<circ> snd) ps))"

section \<open>The libraries behind the wrappers\<close>

text \<open>
  numpy's file reader, Open3D's containers and Open3D's algorithms are called by the
  source but are not part of it.  They enter the model as the fields of a record: every
  wrapper takes the record as its first argument, and a statement about a wrapper holds
  for whatever the libraries do unless it names a condition on a field.

  A numpy array is kept by its shape: zero-dimensional (one value), one-dimensional,
  or two-dimensional as a list of rows.  A call that mutates its receiver and may
  raise gives the receiver's new value and the exception, if any.
\<close>

datatype ndarray = Array0 npfloat | Array1 "npfloat list" | Array2 "npfloat list list"

record library =
  path_exists :: "string \<Rightarrow> bool"
  loadtxt :: "string \<Rightarrow> py_error + ndarray"
  Vector3dVector :: "ndarray \<Rightarrow> py_error + fvec3 list"
  read_point_cloud :: "string \<Rightarrow> PointCloud"
  estimate_normals :: "real \<Rightarrow> int \<Rightarrow> PointCloud \<Rightarrow> PointCloud \<times> py_error option"
  orient_normals_consistent_tangent_plane :: "int \<Rightarrow> PointCloud \<Rightarrow> PointCloud \<times> py_error option"
  create_from_point_cloud_poisson :: "PointCloud \<Rightarrow> int \<Rightarrow> py_error + TriangleMesh \<times> npfloat list"
  create_from_point_cloud_ball_pivoting :: "PointCloud \<Rightarrow> npfloat list \<Rightarrow> py_error + TriangleMesh"
  compute_vertex_normals :: "TriangleMesh \<Rightarrow> fvec3 list"
  compute_nearest_neighbor_distance :: "PointCloud \<Rightarrow> npfloat list"
  voxel_down_sample :: "PointCloud \<Rightarrow> real \<Rightarrow> py_error + PointCloud"

section \<open>Loading\<close>

definition endswith :: "string \<Rightarrow> string \<Rightarrow> bool" where
  "endswith s suf = (length suf \<le> length s \<and> drop (length s - length suf) s = suf)"

text \<open>\<open>load_point_cloud\<close> (utils.py; creator.py has the same body with two prints).\<close>

definition load_point_cloud :: "library \<Rightarrow> string \<Rightarrow> py_error + PointCloud" where
  "load_point_cloud L file_path =
     (if \<not> path_exists L file_path
      then Inl (FileNotFoundError (''File '' @ file_path @ '' does not exist!''))
      else if endswith file_path ''.xyz'' then
        (case loadtxt L file_path of
           Inl e \<Rightarrow> Inl e
         | Inr point_cloud \<Rightarrow>
             (case Vector3dVector L point_cloud of
                Inl e \<Rightarrow> Inl e
              | Inr v \<Rightarrow> Inr (new_PointCloud\<lparr>points := v\<rparr>)))
      else if endswith file_path ''.pcd'' then
        (let pcd = read_point_cloud L file_path in
         if \<not> has_points pcd
         then Inl (ValueError (''Failed to load '' @ file_path @ '': no points found!''))
         else Inr pcd)
      else Inl (ValueError ''Unsupported file format. Use .xyz or .pcd''))"

section \<open>Clouds as objects\<close>

text \<open>
  A cloud is a Python object: a wrapper receives a reference and may change the object
  behind it.  The store maps references to clouds; \<open>next_ref\<close> is the first reference
  not yet in use.
\<close>

record store =
  obj :: "nat \<Rightarrow> PointCloud"
  next_ref :: nat

definition update_obj :: "store \<Rightarrow> nat \<Rightarrow> PointCloud \<Rightarrow> store" where
  "update_obj h r c = h\<lparr>obj := (obj h)(r := c)\<rparr>"


section \<open>Preprocessor\<close>

text \<open>
  The centring and scaling lines of \<open>preprocess_point_cloud\<close> (creator.py):
  \<open>center = points.mean(axis=0); points -= center;
  scale = np.max(np.linalg.norm(points, axis=1)); points /= scale\<close>.
\<close>

definition center_and_scale :: "fvec3 list \<Rightarrow> py_error + fvec3 list" where
  "center_and_scale pts =
     (let center = mean_axis0 pts;
          centred = map (\<lambda>p. fsub p center) pts
      in case np_max (map np_norm centred) of
           Inl e \<Rightarrow> Inl e
         | Inr scale \<Rightarrow> Inr (map (\<lambda>p. fdiv p scale) centred))"


section \<open>NormalEstimator\<close>

text \<open>
  \<open>orient_normals\<close> (utils.py): two calls on the cloud itself, then \<open>return pcd\<close>.
  creator.py has the same function with \<open>k\<close> fixed to 30.
\<close>

definition orient_normals :: "library \<Rightarrow> store \<Rightarrow> nat \<Rightarrow> int \<Rightarrow> store \<times> (py_error + nat)" where
  "orient_normals L h pcd k =
     (case estimate_normals L (1/10) k (obj h pcd) of (c1, e1) \<Rightarrow>
        let h1 = update_obj h pcd c1 in
        (case e1 of
           Some e \<Rightarrow> (h1, Inl e)
         | None \<Rightarrow>
             (case orient_normals_consistent_tangent_plane L k (obj h1 pcd) of (c2, e2) \<Rightarrow>
                let h2 = update_obj h1 pcd c2 in
                (case e2 of Some e \<Rightarrow> (h2, Inl e) | None \<Rightarrow> (h2, Inr pcd)))))"

definition orient_normals_creator :: "library \<Rightarrow> store \<Rightarrow> nat \<Rightarrow> store \<times> (py_error + nat)" where
  "orient_normals_creator L h pcd = orient_normals L h pcd 30"

section \<open>Reconstruction\<close>

text \<open>\<open>poisson_reconstruction\<close> (utils.py).\<close>

definition poisson_reconstruction :: "library \<Rightarrow> PointCloud \<Rightarrow> int \<Rightarrow> py_error + TriangleMesh" where
  "poisson_reconstruction L pcd depth =
     (case create_from_point_cloud_poisson L pcd depth of
        Inl e \<Rightarrow> Inl e
      | Inr (mesh, densities) \<Rightarrow> Inr (mesh\<lparr>vertex_normals := compute_vertex_normals L mesh\<rparr>))"

text \<open>\<open>poisson_reconstruction\<close> (creator.py): as above, and the vertices painted blue.\<close>

definition poisson_reconstruction_creator :: "library \<Rightarrow> PointCloud \<Rightarrow> int \<Rightarrow> py_error + TriangleMesh" where
  "poisson_reconstruction_creator L pcd depth =
     (case poisson_reconstruction L pcd depth of
        Inl e \<Rightarrow> Inl e
      | Inr mesh \<Rightarrow>
          Inr (mesh\<lparr>vertex_colors := replicate (length (vertices mesh)) (Fin 0, Fin 0, Fin 1)\<rparr>))"

text \<open>
  The Poisson step of \<open>main\<close> (creator.py): what the caller does with the mesh.
\<close>

datatype action = Write_triangle_mesh string TriangleMesh | Visualize TriangleMesh string | Print string

definition main_poisson_step :: "library \<Rightarrow> PointCloud \<Rightarrow> py_error + action list" where
  "main_poisson_step L pcd =
     (case poisson_reconstruction_creator L pcd 8 of
        Inl e \<Rightarrow> Inl e
      | Inr poisson_mesh \<Rightarrow>
          if has_triangles poisson_mesh
          then Inr [Write_triangle_mesh ''poisson_mesh.ply'' poisson_mesh,
                    Print ''Saved poisson_mesh.ply'',
                    Visualize poisson_mesh ''Poisson Mesh'']
          else Inr [Print ''Poisson reconstruction failed: no triangles generated.''])"

text \<open>\<open>ball_pivoting_reconstruction\<close> (utils.py and creator.py; the default radii differ).\<close>

definition ball_pivoting_radii :: "library \<Rightarrow> PointCloud \<Rightarrow> npfloat list \<Rightarrow> npfloat list" where
  "ball_pivoting_radii L pcd radii =
     (let distances = compute_nearest_neighbor_distance L pcd;
          avg_dist = np_mean distances
      in map (\<lambda>r. np_mul r avg_dist) radii)"

definition ball_pivoting_reconstruction :: "library \<Rightarrow> PointCloud \<Rightarrow> npfloat list \<Rightarrow> py_error + TriangleMesh" where
  "ball_pivoting_reconstruction L pcd radii =
     (case create_from_point_cloud_ball_pivoting L pcd (ball_pivoting_radii L pcd radii) of
        Inl e \<Rightarrow> Inl e
      | Inr mesh \<Rightarrow> Inr (mesh\<lparr>vertex_normals := compute_vertex_normals L mesh\<rparr>))"

text \<open>
  A cloud scaled uniformly about the origin by the factor \<open>s\<close>: every coordinate is
  multiplied by \<open>s\<close>, normals and colours stay.  The triangle count of a run is the
  number of triangles of the mesh it returns, if it returns one.
\<close>

definition scale_cloud :: "real \<Rightarrow> PointCloud \<Rightarrow> PointCloud" where
  "scale_cloud s pcd = pcd\<lparr>points := map (fscale (Fin s)) (points pcd)\<rparr>"

definition triangle_count :: "py_error + TriangleMesh \<Rightarrow> nat option" where
  "triangle_count r = (case r of Inl e \<Rightarrow> None | Inr mesh \<Rightarrow> Some (length (triangles mesh)))"

definition default_radii :: "npfloat list" where
  "default_radii = [Fin 1, Fin 2, Fin 4, Fin 8, Fin 16]"

section \<open>Library routines described by the specification\<close>

text \<open>
  Modelled from the spec: Open3D's \<open>voxel_down_sample\<close> is not part of the source.
  The specification words it as: partition space into a uniform grid (edge =
  voxelSize); each occupied cell is replaced by the centroid of its contained points.
  The grid is a partition of space, fixed by the voxel size alone: the cell of a
  coordinate \<open>x\<close> is \<open>\<lfloor>x / v\<rfloor>\<close>.  The output lists the occupied cells once each.
\<close>

definition voxel_index :: "real \<Rightarrow> vec3 \<Rightarrow> int \<times> int \<times> int" where
  "voxel_index v p = (case p of (x, y, z) \<Rightarrow> (\<lfloor>x / v\<rfloor>, \<lfloor>y / v\<rfloor>, \<lfloor>z / v\<rfloor>))"

definition centroid :: "vec3 list \<Rightarrow> vec3" where
  "centroid ps = (sum_list (map fst ps) / real (length ps),
                  sum_list (map (fst \<circ> snd) ps) / real (length ps),
                  sum_list (map (snd \<circ> snd) ps) / real (length ps))"

definition downsample :: "real \<Rightarrow> vec3 list \<Rightarrow> vec3 list" where
  "downsample v ps =
     map (\<lambda>c. centroid (filter (\<lambda>p. voxel_index v p = c) ps)) (remdups (map (voxel_index v) ps))"

text \<open>
  Modelled from the spec: Open3D's \<open>compute_nearest_neighbor_distance\<close> is not part of
  the source.  The specification words it as: each point's nearest-neighbor distance.
  A cloud of one point has no neighbour; its distance is taken as 0.
\<close>

definition dist3 :: "vec3 \<Rightarrow> vec3 \<Rightarrow> real" where
  "dist3 p q = (case p of (a, b, c) \<Rightarrow> case q of (d, e, f) \<Rightarrow>
     sqrt ((a - d) * (a - d) + (b - e) * (b - e) + (c - f) * (c - f)))"

definition min_list_or_zero :: "real list \<Rightarrow> real" where
  "min_list_or_zero ds = (case ds of [] \<Rightarrow> 0 | d # rest \<Rightarrow> foldl min d rest)"

definition nearest_neighbor_distance :: "vec3 list \<Rightarrow> real list" where
  "nearest_neighbor_distance ps =
     map (\<lambda>i. min_list_or_zero (map (\<lambda>j. dist3 (ps ! i) (ps ! j)) (filter (\<lambda>j. j \<noteq> i) [0 ..< length ps])))
         [0 ..< length ps]"

section \<open>Notions used to state the properties of centring and scaling\<close>

text \<open>The points moved by minus their centroid, and the largest norm among them.\<close>

definition centred :: "vec3 list \<Rightarrow> vec3 list" where
  "centred ps = map (\<lambda>p. vadd p (smul (- 1) (centroid ps))) ps"

definition spread :: "vec3 list \<Rightarrow> real" where
  "spread ps = Max (set (map norm3 (centred ps)))"

section \<open>A stand-in library for concrete runs\<close>

text \<open>
  To run the wrappers on concrete inputs the record needs a value.  The stand-in below
  follows the documented behaviour of the libraries where the wrappers depend on it:
  \<^item> \<open>np.loadtxt\<close> skips blank lines, raises \<open>ValueError\<close> on a field that is not a
    number or on rows of different lengths, and squeezes its result: no row gives an
    empty one-dimensional array, one row a one-dimensional array, one value a
    zero-dimensional one;
  \<^item> \<open>Vector3dVector\<close> takes a two-dimensional array with three columns;
  \<^item> \<open>read_point_cloud\<close> gives an empty cloud for a file it cannot read;
  \<^item> both reconstruction routines need a cloud with normals;
  \<^item> down-sampling and nearest-neighbour distances are the routines above.
  Normal estimation and the two reconstructions themselves are placeholders (a fixed
  normal, an empty mesh); no general statement below depends on them.

  A text file is kept as its lines, a line as its fields, a field as the number it
  denotes, if any.
\<close>

datatype file_content = Text_file "npfloat option list list" | Pcd_file PointCloud

definition np_loadtxt :: "npfloat option list list \<Rightarrow> py_error + ndarray" where
  "np_loadtxt lines =
     (let rows = filter (\<lambda>l. l \<noteq> []) lines in
      if \<exists>l \<in> set rows. None \<in> set l then Inl (ValueError ''could not convert string to float'')
      else if \<exists>l \<in> set rows. length l \<noteq> length (hd rows)
      then Inl (ValueError ''the number of columns changed'')
      else
        (case map (map the) rows of
           [] \<Rightarrow> Inr (Array1 [])
         | [row] \<Rightarrow> (case row of [x] \<Rightarrow> Inr (Array0 x) | _ \<Rightarrow> Inr (Array1 row))
         | vals \<Rightarrow> if length (hd vals) = 1 then Inr (Array1 (concat vals)) else Inr (Array2 vals)))"

definition row3 :: "npfloat list \<Rightarrow> fvec3" where
  "row3 r = (r ! 0, r ! 1, r ! 2)"

definition o3d_Vector3dVector :: "ndarray \<Rightarrow> py_error + fvec3 list" where
  "o3d_Vector3dVector a =
     (case a of
        Array2 rows \<Rightarrow>
          if \<forall>r \<in> set rows. length r = 3 then Inr (map row3 rows)
          else Inl (RuntimeError ''Unable to cast Python instance to C++ type'')
      | _ \<Rightarrow> Inl (RuntimeError ''Unable to cast Python instance to C++ type''))"

fun real_of_npfloat :: "npfloat \<Rightarrow> real option" where
  "real_of_npfloat (Fin a) = Some a"
| "real_of_npfloat x = None"

definition vec3_of :: "fvec3 \<Rightarrow> vec3 option" where
  "vec3_of p = (case p of (a, b, c) \<Rightarrow>
     (case (real_of_npfloat a, real_of_npfloat b, real_of_npfloat c) of
        (Some x, Some y, Some z) \<Rightarrow> Some (x, y, z)
      | _ \<Rightarrow> None))"

definition reals_of :: "fvec3 list \<Rightarrow> vec3 list option" where
  "reals_of ps = (if \<forall>p \<in> set ps. vec3_of p \<noteq> None then Some (map (the \<circ> vec3_of) ps) else None)"

definition empty_mesh :: TriangleMesh where
  "empty_mesh = \<lparr>vertices = [], triangles = [], vertex_normals = [], vertex_colors = []\<rparr>"

definition stand_in :: "(string \<times> file_content) list \<Rightarrow> library" where
  "stand_in fs =
     \<lparr>path_exists = (\<lambda>p. map_of fs p \<noteq> None),
      loadtxt = (\<lambda>p. case map_of fs p of
                   Some (Text_file lines) \<Rightarrow> np_loadtxt lines
                 | Some (Pcd_file c) \<Rightarrow> Inl (ValueError ''could not convert string to float'')
                 | None \<Rightarrow> Inl (FileNotFoundError p)),
      Vector3dVector = o3d_Vector3dVector,
      read_point_cloud = (\<lambda>p. case map_of fs p of Some (Pcd_file c) \<Rightarrow> c | _ \<Rightarrow> new_PointCloud),
      estimate_normals = (\<lambda>radius k c.
         (c\<lparr>normals := replicate (length (points c)) (Fin 0, Fin 0, Fin 1)\<rparr>, None)),
      orient_normals_consistent_tangent_plane = (\<lambda>k c.
         (c, if has_normals c then None
             else Some (RuntimeError ''No normals in the PointCloud. Call EstimateNormals() first.''))),
      create_from_point_cloud_poisson = (\<lambda>c depth.
         if has_normals c then Inr (empty_mesh, [])
         else Inl (RuntimeError ''Point cloud has no normals'')),
      create_from_point_cloud_ball_pivoting = (\<lambda>c radii.
         if has_normals c then Inr empty_mesh
         else Inl (RuntimeError ''ReconstructBallPivoting requires normals'')),
      compute_vertex_normals = (\<lambda>m. replicate (length (vertices m)) (Fin 0, Fin 0, Fin 1)),
      compute_nearest_neighbor_distance = (\<lambda>c.
         case reals_of (points c) of
           Some ps \<Rightarrow> map Fin (nearest_neighbor_distance ps)
         | None \<Rightarrow> replicate (length (points c)) NaN),
      voxel_down_sample = (\<lambda>c v.
         case reals_of (points c) of
           Some ps \<Rightarrow> Inr (new_PointCloud\<lparr>points := map fin3 (downsample v ps)\<rparr>)
         | None \<Rightarrow> Inl (RuntimeError ''voxel_down_sample: non-finite coordinates''))\<rparr>"

section \<open>Ball pivoting, as the specification describes it\<close>

text \<open>
  Modelled from the spec: Open3D's \<open>create_from_point_cloud_ball_pivoting\<close> is not part
  of the source.  The specification words it as follows.  For each radius \<open>r\<close>,
  ascending: (a) seeding: find three mutually close points whose circumscribing ball of
  radius \<open>r\<close> touches all three and encloses no other point, oriented consistently with
  the averaged point normals; emit it as the first triangle and its three edges as the
  active front; (b) pivoting: for each active front edge \<open>(p, q)\<close>, pivot a ball of radius
  \<open>r\<close> about the edge axis, starting from the triangle's opposite vertex, until it touches
  a new point not already inside the ball; form a new triangle from that point and the
  edge; if the touched point already belongs to the mesh, close the front there;
  (c) an edge with no valid pivot target becomes a boundary edge, left open for a later,
  larger radius.  Triangles from all passes are unioned; ties are broken by the lowest
  point index; no seed for any radius gives an empty mesh.

  The geometry first.  The ball of radius \<open>r\<close> touching the points \<open>a\<close>, \<open>b\<close>, \<open>c\<close> has
  its centre above the circumcentre of the triangle, on the side the triangle's normal
  (by the order \<open>a\<close>, \<open>b\<close>, \<open>c\<close>) points to; there is none when the points are collinear
  or the circumradius exceeds \<open>r\<close>.
\<close>

definition vsub :: "vec3 \<Rightarrow> vec3 \<Rightarrow> vec3" where
  "vsub p q = (case p of (a, b, c) \<Rightarrow> case q of (d, e, f) \<Rightarrow> (a - d, b - e, c - f))"

definition dot3 :: "vec3 \<Rightarrow> vec3 \<Rightarrow> real" where
  "dot3 p q = (case p of (a, b, c) \<Rightarrow> case q of (d, e, f) \<Rightarrow> a * d + b * e + c * f)"

definition cross3 :: "vec3 \<Rightarrow> vec3 \<Rightarrow> vec3" where
  "cross3 p q = (case p of (a, b, c) \<Rightarrow> case q of (d, e, f) \<Rightarrow>
     (b * f - c * e, c * d - a * f, a * e - b * d))"

definition circumcenter :: "vec3 \<Rightarrow> vec3 \<Rightarrow> vec3 \<Rightarrow> vec3" where
  "circumcenter a b c =
     (let u = vsub b a; v = vsub c a; w = cross3 u v
      in vadd a (smul (1 / (2 * dot3 w w))
                   (vadd (smul (dot3 u u) (cross3 v w)) (smul (dot3 v v) (cross3 w u)))))"

definition raise_center :: "vec3 \<Rightarrow> vec3 \<Rightarrow> real \<Rightarrow> vec3 option" where
  "raise_center w cc hh =
     (if dot3 w w = 0 \<or> hh < 0 then None
      else Some (vadd cc (smul (sqrt (hh / dot3 w w)) w)))"

definition ball_center :: "vec3 \<Rightarrow> vec3 \<Rightarrow> vec3 \<Rightarrow> real \<Rightarrow> vec3 option" where
  "ball_center a b c r =
     (let w = cross3 (vsub b a) (vsub c a);
          cc = circumcenter a b c
      in raise_center w cc (r * r - dot3 (vsub cc a) (vsub cc a)))"

text \<open>
  Modelled from the spec: \<open>pivot a ball of radius r about the edge axis\<close>.
  How far the ball has turned about the edge from \<open>p\<close> to \<open>q\<close> when its centre has moved
  from \<open>c0\<close> to \<open>cx\<close>: a number that grows with the angle of rotation (from 0 to 4 as
  the angle goes from 0 to a full turn), computed from the cosine and the sign of the
  sine of that angle.
\<close>

definition turn_key :: "vec3 \<Rightarrow> vec3 \<Rightarrow> vec3 \<Rightarrow> real" where
  "turn_key u0 ux axis =
     (let cs = dot3 u0 ux / dot3 u0 u0;
          sn = dot3 (cross3 u0 ux) axis
      in if 0 \<le> sn then 1 - cs else 3 + cs)"

definition pivot_key :: "vec3 \<Rightarrow> vec3 \<Rightarrow> vec3 \<Rightarrow> vec3 \<Rightarrow> real" where
  "pivot_key p q c0 cx =
     (let m = smul (1/2) (vadd p q)
      in turn_key (vsub c0 m) (vsub cx m) (vsub q p))"

text \<open>
  Modelled from the spec: the seeding step (a).
  Points are named by their index in the cloud.  A seed is an ordered triple of distinct
  points, wound so that the triangle's normal agrees with the average of the three point
  normals, whose ball exists and holds no other point of the cloud in its interior.
\<close>

definition dist2 :: "vec3 \<Rightarrow> vec3 \<Rightarrow> real" where
  "dist2 p q = dot3 (vsub p q) (vsub p q)"

definition ball_empty :: "vec3 list \<Rightarrow> nat list \<Rightarrow> vec3 \<Rightarrow> real \<Rightarrow> bool" where
  "ball_empty ps touching c r =
     (\<forall>x \<in> set [0 ..< length ps]. x \<in> set touching \<or> r * r \<le> dist2 (ps ! x) c)"

definition valid_seed :: "vec3 list \<Rightarrow> vec3 list \<Rightarrow> real \<Rightarrow> nat \<times> nat \<times> nat \<Rightarrow> bool" where
  "valid_seed ps ns r t =
     (case t of (i, j, k) \<Rightarrow>
        i < length ps \<and> j < length ps \<and> k < length ps \<and> i \<noteq> j \<and> j \<noteq> k \<and> i \<noteq> k
        \<and> 0 < dot3 (cross3 (vsub (ps ! j) (ps ! i)) (vsub (ps ! k) (ps ! i)))
                    (smul (1/3) (vadd (vadd (ns ! i) (ns ! j)) (ns ! k)))
        \<and> (case ball_center (ps ! i) (ps ! j) (ps ! k) r of
              None \<Rightarrow> False
            | Some c \<Rightarrow> ball_empty ps [i, j, k] c r))"

text \<open>
  Modelled from the spec: the pivoting step (b), with ties broken by the lowest index.
  The pivot target of the edge from \<open>p\<close> to \<open>q\<close> with opposite vertex \<open>opp\<close>: among the
  other points that the ball can touch together with \<open>p\<close> and \<open>q\<close> and that are not
  inside the ball it starts from, the one reached by the smallest turn; of several
  reached together, the one with the lowest index.
\<close>

fun first_min :: "('a \<Rightarrow> real) \<Rightarrow> 'a list \<Rightarrow> 'a option" where
  "first_min f [] = None"
| "first_min f (x # xs) =
     (case first_min f xs of
        None \<Rightarrow> Some x
      | Some y \<Rightarrow> if f x \<le> f y then Some x else Some y)"

definition pivot_candidates :: "vec3 list \<Rightarrow> real \<Rightarrow> nat \<Rightarrow> nat \<Rightarrow> nat \<Rightarrow> vec3 \<Rightarrow> nat list" where
  "pivot_candidates ps r p q opp c0 =
     filter (\<lambda>x. x \<noteq> p \<and> x \<noteq> q \<and> x \<noteq> opp
                 \<and> ball_center (ps ! q) (ps ! p) (ps ! x) r \<noteq> None
                 \<and> r * r \<le> dist2 (ps ! x) c0)
            [0 ..< length ps]"

definition pivot_target :: "vec3 list \<Rightarrow> real \<Rightarrow> nat \<Rightarrow> nat \<Rightarrow> nat \<Rightarrow> nat option" where
  "pivot_target ps r p q opp =
     (if p < length ps \<and> q < length ps \<and> opp < length ps then
        (case ball_center (ps ! p) (ps ! q) (ps ! opp) r of
           None \<Rightarrow> None
         | Some c0 \<Rightarrow>
             first_min (\<lambda>x. pivot_key (ps ! p) (ps ! q) c0 (the (ball_center (ps ! q) (ps ! p) (ps ! x) r)))
                       (pivot_candidates ps r p q opp c0))
      else None)"

text \<open>
  Modelled from the spec: the front of steps (a) to (c).
  The mesh grows by triangles on point indices.  A front edge \<open>(p, q, opp)\<close> is the
  directed edge from \<open>p\<close> to \<open>q\<close> of a triangle whose third vertex is \<open>opp\<close>.  Adding an
  edge whose reverse is already on the front closes the front there; otherwise the
  edge joins the front.  \<open>avail\<close> lists the vertex triples that carry no triangle yet: a
  triangle is emitted only on such a triple, which is then struck off.  An edge whose
  pivot finds no target, or only a triple already taken, becomes a boundary edge.
\<close>

type_synonym tri = "nat \<times> nat \<times> nat"

definition sort3 :: "tri \<Rightarrow> tri" where
  "sort3 t = (case t of (i, j, k) \<Rightarrow>
     (min i (min j k), max (min i j) (min (max i j) k), max i (max j k)))"

definition glue :: "tri \<Rightarrow> tri list \<Rightarrow> tri list" where
  "glue e front =
     (case e of (a, b, opp) \<Rightarrow>
        if \<exists>f \<in> set front. fst f = b \<and> fst (snd f) = a
        then filter (\<lambda>f. \<not> (fst f = b \<and> fst (snd f) = a)) front
        else front @ [e])"

function pivot_loop ::
  "(nat \<Rightarrow> nat \<Rightarrow> nat \<Rightarrow> nat option) \<Rightarrow> tri list \<Rightarrow> tri list \<Rightarrow> tri list \<Rightarrow> tri list
     \<Rightarrow> tri list \<times> tri list \<times> tri list" where
  "pivot_loop tgt avail tris [] bd = (avail, tris, bd)"
| "pivot_loop tgt avail tris (e # front) bd =
     (case tgt (fst e) (fst (snd e)) (snd (snd e)) of
        None \<Rightarrow> pivot_loop tgt avail tris front (bd @ [e])
      | Some x \<Rightarrow>
          if sort3 (fst (snd e), fst e, x) \<in> set avail
          then pivot_loop tgt (removeAll (sort3 (fst (snd e), fst e, x)) avail)
                 (tris @ [(fst (snd e), fst e, x)])
                 (glue (x, fst (snd e), fst e) (glue (fst e, x, fst (snd e)) front)) bd
          else pivot_loop tgt avail tris front (bd @ [e]))"
  by pat_completeness auto

termination
proof (relation "measure (\<lambda>(tgt, avail, tris, front, bd). 2 * length avail + length front)")
  show "wf (measure (\<lambda>(tgt, avail, tris, front, bd). 2 * length avail + length front))"
    by simp
next
  fix tgt :: "nat \<Rightarrow> nat \<Rightarrow> nat \<Rightarrow> nat option" and avail tris :: "tri list" and e front bd
  show "((tgt, avail, tris, front, bd @ [e]), tgt, avail, tris, e # front, bd)
          \<in> measure (\<lambda>(tgt, avail, tris, front, bd). 2 * length avail + length front)"
    by simp
next
  fix tgt :: "nat \<Rightarrow> nat \<Rightarrow> nat \<Rightarrow> nat option" and avail tris :: "tri list" and e :: tri
    and front bd :: "tri list" and x
  assume "sort3 (fst (snd e), fst e, x) \<in> set avail"
  then have "length (removeAll (sort3 (fst (snd e), fst e, x)) avail) < length avail"
    by (rule length_removeAll_less)
  have length_glue: "length (glue g fr) \<le> Suc (length fr)" for g fr
    by (cases g) (auto simp add: glue_def intro: le_SucI)
  have "length (glue (x, fst (snd e), fst e) (glue (fst e, x, fst (snd e)) front))
      \<le> Suc (Suc (length front))"
    using length_glue [of "(x, fst (snd e), fst e)" "glue (fst e, x, fst (snd e)) front"]
      length_glue [of "(fst e, x, fst (snd e))" front] by linarith
  with \<open>length (removeAll (sort3 (fst (snd e), fst e, x)) avail) < length avail\<close>
  show "((tgt, removeAll (sort3 (fst (snd e), fst e, x)) avail,
            tris @ [(fst (snd e), fst e, x)],
            glue (x, fst (snd e), fst e) (glue (fst e, x, fst (snd e)) front), bd),
           tgt, avail, tris, e # front, bd)
          \<in> measure (\<lambda>(tgt, avail, tris, front, bd). 2 * length avail + length front)"
    by simp
next
  fix tgt :: "nat \<Rightarrow> nat \<Rightarrow> nat \<Rightarrow> nat option" and avail tris :: "tri list" and e front bd
  show "((tgt, avail, tris, front, bd @ [e]), tgt, avail, tris, e # front, bd)
          \<in> measure (\<lambda>(tgt, avail, tris, front, bd). 2 * length avail + length front)"
    by simp
qed

text \<open>
  Modelled from the spec: \<open>for each radius r, ascending\<close>, and the union of all passes.
  One pass for one radius: the boundary edges left by earlier passes are the active
  front; the first seed in index order that is not in the mesh yet is added with its
  three edges; then the front is pivoted until it is used up.  The passes run over the
  radii in ascending order, and the mesh is the triangles of all passes.
\<close>

definition all_triples :: "nat \<Rightarrow> tri list" where
  "all_triples n =
     concat (map (\<lambda>i. concat (map (\<lambda>j. map (\<lambda>k. (i, j, k)) [0 ..< n]) [0 ..< n])) [0 ..< n])"

definition find_seed :: "(tri \<Rightarrow> bool) \<Rightarrow> tri list \<Rightarrow> nat \<Rightarrow> tri option" where
  "find_seed valid avail n = find (\<lambda>t. valid t \<and> sort3 t \<in> set avail) (all_triples n)"

definition pivoting_pass ::
  "(tri \<Rightarrow> bool) \<Rightarrow> (nat \<Rightarrow> nat \<Rightarrow> nat \<Rightarrow> nat option) \<Rightarrow> nat
     \<Rightarrow> tri list \<times> tri list \<times> tri list \<Rightarrow> tri list \<times> tri list \<times> tri list" where
  "pivoting_pass valid tgt n st =
     (case st of (avail, tris, bd) \<Rightarrow>
        (case find_seed valid avail n of
           None \<Rightarrow> pivot_loop tgt avail tris bd []
         | Some t \<Rightarrow>
             (case t of (i, j, k) \<Rightarrow>
                pivot_loop tgt (removeAll (sort3 t) avail) (tris @ [t])
                  (glue (k, i, j) (glue (j, k, i) (glue (i, j, k) bd))) [])))"

fun pivoting_passes ::
  "(real \<Rightarrow> tri \<Rightarrow> bool) \<Rightarrow> (real \<Rightarrow> nat \<Rightarrow> nat \<Rightarrow> nat \<Rightarrow> nat option) \<Rightarrow> nat \<Rightarrow> real list
     \<Rightarrow> tri list \<times> tri list \<times> tri list \<Rightarrow> tri list \<times> tri list \<times> tri list" where
  "pivoting_passes valid tgt n [] st = st"
| "pivoting_passes valid tgt n (r # rs) st =
     pivoting_passes valid tgt n rs (pivoting_pass (valid r) (tgt r) n st)"

definition ball_pivoting_triangles :: "vec3 list \<Rightarrow> vec3 list \<Rightarrow> real list \<Rightarrow> tri list" where
  "ball_pivoting_triangles ps ns radii =
     (case pivoting_passes (valid_seed ps ns) (pivot_target ps) (length ps) (sort radii)
             (filter (\<lambda>t. fst t < fst (snd t) \<and> fst (snd t) < snd (snd t)) (all_triples (length ps)), [], [])
      of (avail, tris, bd) \<Rightarrow> tris)"

text \<open>
  Modelled from the spec: the routine as the wrapper calls it.
  The routine on a cloud: it needs normals, and finite coordinates; radii that are not
  positive finite numbers find nothing and are passed over.  The library of the runs
  below is the stand-in library with this routine in the place of the placeholder.
\<close>

fun positive_radii :: "npfloat list \<Rightarrow> real list" where
  "positive_radii [] = []"
| "positive_radii (Fin r # rs) = (if 0 < r then r # positive_radii rs else positive_radii rs)"
| "positive_radii (x # rs) = positive_radii rs"

definition pivoting_routine :: "PointCloud \<Rightarrow> npfloat list \<Rightarrow> py_error + TriangleMesh" where
  "pivoting_routine c radii =
     (if \<not> has_normals c then Inl (RuntimeError ''ReconstructBallPivoting requires normals'')
      else
        (case reals_of (points c) of
           None \<Rightarrow> Inl (RuntimeError ''ball pivoting: non-finite coordinates'')
         | Some ps \<Rightarrow>
             (case reals_of (normals c) of
                None \<Rightarrow> Inl (RuntimeError ''ball pivoting: non-finite normals'')
              | Some ns \<Rightarrow>
                  Inr \<lparr>vertices = points c,
                       triangles = ball_pivoting_triangles ps ns (positive_radii radii),
                       vertex_normals = normals c,
                       vertex_colors = colors c\<rparr>)))"

definition pivoting_library :: "(string \<times> file_content) list \<Rightarrow> library" where
  "pivoting_library fs = (stand_in fs)\<lparr>create_from_point_cloud_ball_pivoting := pivoting_routine\<rparr>"

section \<open>What a call reports, and concrete inputs\<close>

text \<open>
  A call reports an error to its caller by raising it; a raise ends the call.  So a
  call reports the exception it ended with, or nothing.
\<close>

definition errors_reported :: "'s \<times> (py_error + 'a) \<Rightarrow> py_error list" where
  "errors_reported out = (case snd out of Inl e \<Rightarrow> [e] | Inr r \<Rightarrow> [])"

definition four_points :: PointCloud where
  "four_points = new_PointCloud\<lparr>points :=
     [(Fin 0, Fin 0, Fin 0), (Fin 1, Fin 0, Fin 0), (Fin 0, Fin 1, Fin 0), (Fin 0, Fin 0, Fin 1)]\<rparr>"

definition four_points_with_normals :: PointCloud where
  "four_points_with_normals = four_points\<lparr>normals := replicate 4 (Fin 0, Fin 0, Fin 1)\<rparr>"


definition three_points :: PointCloud where
  "three_points = \<lparr>points = [(Fin 0, Fin 0, Fin 0), (Fin 1, Fin 0, Fin 0), (Fin 0, Fin 1, Fin 0)],
                    normals = [(Fin 0, Fin 0, Fin 1), (Fin 0, Fin 0, Fin 1), (Fin 0, Fin 0, Fin 1)],
                    colors = []\<rparr>"

definition store_of :: "PointCloud \<Rightarrow> store" where
  "store_of c = \<lparr>obj = (\<lambda>r. if r = 0 then c else new_PointCloud), next_ref = 1\<rparr>"

definition demo_files :: "(string \<times> file_content) list" where
  "demo_files =
     [(''one.xyz'', Text_file [[Some (Fin 1), Some (Fin 2), Some (Fin 3)]]),
      (''two.xyz'', Text_file [[Some (Fin 1), Some (Fin 2), Some (Fin 3)],
                               [Some (Fin 4), Some (Fin 5), Some (Fin 6)]]),
      (''bad.xyz'', Text_file [[Some (Fin 1), Some (Fin 2), Some (Fin 3)],
                               [Some (Fin 4), None, Some (Fin 6)]]),
      (''four.pcd'', Pcd_file four_points),
      (''none.pcd'', Pcd_file new_PointCloud),
      (''notes.txt'', Text_file [])]"

section \<open>Properties of the tetrahedron generator\<close>

lemma length_sample_face: "length (sample_face rng pos m face) = m"
  by (cases face) (simp add: sample_face_def uniform_def Let_def)

lemma length_sample_faces:
  "length (concat (sample_faces rng pos m faces)) = m * length faces"
  by (induction faces arbitrary: pos) (simp_all add: length_sample_face)

lemma tetrahedron_points_length:
  assumes "0 \<le> n"
  shows "\<exists>pts. tetrahedron_points rng n = Inr pts \<and> int (length pts) = (if n < 4 then 0 else n)"
proof -
  let ?m = "nat (n div 4)"
  let ?pts = "concat (sample_faces rng 0 ?m tetra_faces)"
  have l4: "length tetra_faces = 4"
    by (simp add: tetra_faces_def)
  have "length ?pts = ?m * 4"
    using length_sample_faces [of rng 0 ?m tetra_faces] by (simp only: l4)
  then have len: "int (length ?pts) = 4 * (n div 4)"
    using assms by simp
  have nn: "\<not> n div 4 < 0" using assms by simp
  show ?thesis
  proof (cases "n < 4")
    case True
    then have "n div 4 = 0" using assms by simp
    then show ?thesis using True assms len
      by (auto simp add: tetrahedron_points_def Let_def)
  next
    case False
    then have "n - 4 * (n div 4) < 4 * (n div 4)" by presburger
    then have short: "nat (n - int (length ?pts)) \<le> length ?pts"
      using len by linarith
    have le: "4 * (n div 4) \<le> n" by presburger
    have "int (length (?pts @ take (nat (n - int (length ?pts))) ?pts)) = n"
      using short le len by (simp add: min_absorb2)
    then show ?thesis using False len nn le
      by (auto simp add: tetrahedron_points_def Let_def simp del: length_append length_take)
  qed
qed

lemma tetrahedron_points_negative:
  "n < 0 \<Longrightarrow> tetrahedron_points rng n = Inl (ValueError ''negative dimensions are not allowed'')"
  by (simp add: tetrahedron_points_def Let_def)


lemma in_tetrahedron_iff: "in_tetrahedron p \<longleftrightarrow> convex_hull4 p"
proof (cases p)
  case (fields x y z)
  show ?thesis
  proof
    assume "in_tetrahedron p"
    then have h: "0 \<le> z" "z / 2 \<le> x" "z / 2 \<le> y" "x + y \<le> 1"
      by (simp_all add: in_tetrahedron_def fields)
    show "convex_hull4 p"
      unfolding convex_hull4_def
      apply (rule exI [of _ "1 - x - y"], rule exI [of _ "x - z / 2"],
             rule exI [of _ "y - z / 2"], rule exI [of _ z])
      using h by (simp add: fields tetra_vertices_def vadd_def smul_def)
  next
    assume "convex_hull4 p"
    then obtain a b c d where "0 \<le> a" "0 \<le> b" "0 \<le> c" "0 \<le> d" "a + b + c + d = 1"
      and "x = b + d / 2" "y = c + d / 2" "z = d"
      by (auto simp add: convex_hull4_def fields tetra_vertices_def vadd_def smul_def)
    then show "in_tetrahedron p"
      by (simp add: in_tetrahedron_def fields)
  qed
qed

lemma bary_point_in_tetrahedron:
  assumes "0 \<le> u" "u \<le> 1" "0 \<le> v" "v \<le> 1" "face \<in> set tetra_faces"
  shows "case face of (i0, i1, i2) \<Rightarrow>
    in_tetrahedron (bary_point (tetra_vertices ! i0) (tetra_vertices ! i1) (tetra_vertices ! i2) (u, v))"
  using assms
  by (auto simp add: tetra_faces_def tetra_vertices_def bary_point_def Let_def
      in_tetrahedron_def vadd_def smul_def)

lemma sample_face_in_tetrahedron:
  assumes rng: "\<And>i. 0 \<le> rng i \<and> rng i < 1" and face: "face \<in> set tetra_faces"
    and p: "p \<in> set (sample_face rng pos m face)"
  shows "in_tetrahedron p"
proof (cases face)
  case (fields i0 i1 i2)
  from p obtain u v where uv: "(u, v) \<in> set (zip (uniform rng pos m) (uniform rng (pos + m) m))"
    and peq: "p = bary_point (tetra_vertices ! i0) (tetra_vertices ! i1) (tetra_vertices ! i2) (u, v)"
    by (auto simp add: sample_face_def fields Let_def)
  from uv have "u \<in> set (uniform rng pos m)" "v \<in> set (uniform rng (pos + m) m)"
    by (auto dest: set_zip_leftD set_zip_rightD)
  then have "0 \<le> u" "u \<le> 1" "0 \<le> v" "v \<le> 1"
    using rng by (auto simp add: uniform_def less_imp_le)
  from bary_point_in_tetrahedron [OF this face] show ?thesis
    by (simp add: fields peq)
qed

lemma sample_faces_in_tetrahedron:
  assumes rng: "\<And>i. 0 \<le> rng i \<and> rng i < 1"
  shows "set faces \<subseteq> set tetra_faces \<Longrightarrow> p \<in> set (concat (sample_faces rng pos m faces))
    \<Longrightarrow> in_tetrahedron p"
proof (induction faces arbitrary: pos)
  case Nil
  then show ?case by simp
next
  case (Cons face faces)
  then show ?case
    using sample_face_in_tetrahedron [OF rng, where face = face and p = p and pos = pos and m = m]
    by auto
qed

lemma tetrahedron_points_in_hull:
  assumes rng: "\<And>i. 0 \<le> rng i \<and> rng i < 1"
    and res: "tetrahedron_points rng n = Inr pts" and p: "p \<in> set pts"
  shows "convex_hull4 p"
proof -
  let ?all = "concat (sample_faces rng 0 (nat (n div 4)) tetra_faces)"
  have tk: "\<And>k. set (take k ?all) \<subseteq> set ?all"
    by (rule set_take_subset)
  from res have "pts = take (nat n) ?all \<or> pts = ?all @ take (nat (n - int (length ?all))) ?all
      \<or> pts = ?all"
    by (simp add: tetrahedron_points_def Let_def split: if_splits)
  then have "set pts \<subseteq> set ?all"
    using tk by (elim disjE) (simp_all del: set_concat)
  with p have "p \<in> set ?all" by blast
  then have "in_tetrahedron p"
    using sample_faces_in_tetrahedron [OF rng, where faces = tetra_faces and p = p and pos = 0]
    by simp
  then show ?thesis by (simp add: in_tetrahedron_iff)
qed

lemma generate_tetrahedron_count:
  assumes "4 \<le> n \<or> n = 0"
  shows "\<exists>pcd. generate_tetrahedron_point_cloud rng n = Inr pcd \<and> int (length (points pcd)) = n"
proof -
  from assms have "0 \<le> n" by auto
  from tetrahedron_points_length [OF this, of rng] assms show ?thesis
    by (auto simp add: generate_tetrahedron_point_cloud_def)
qed

text \<open>
  Claim C9: for every \<open>n\<close>, \<open>generate_tetrahedron_point_cloud\<close> returns exactly \<open>n\<close>
  points.  The padding step copies \<open>points[:extra]\<close> from the points sampled so far;
  for \<open>n = 1\<close> there are none (\<open>n // 4 = 0\<close> points per face), so the cloud that comes
  back is empty, whatever the random samples are.  (From \<open>n = 4\<close> on the count is exact,
  \<open>generate_tetrahedron_count\<close>, and every point lies in the hull,
  \<open>tetrahedron_points_in_hull\<close>.)
\<close>

theorem generate_tetrahedron_one_point_request:
  "generate_tetrahedron_point_cloud rng 1 = Inr (new_PointCloud\<lparr>points := []\<rparr>)"
  by (simp add: generate_tetrahedron_point_cloud_def tetrahedron_points_def Let_def
      tetra_faces_def sample_face_def uniform_def)

section \<open>Evaluating the stand-in library\<close>

lemma stand_in_simps:
  "path_exists (stand_in fs) p = (map_of fs p \<noteq> None)"
  "Vector3dVector (stand_in fs) = o3d_Vector3dVector"
  "loadtxt (stand_in fs) p = (case map_of fs p of
                   Some (Text_file lines) \<Rightarrow> np_loadtxt lines
                 | Some (Pcd_file c) \<Rightarrow> Inl (ValueError ''could not convert string to float'')
                 | None \<Rightarrow> Inl (FileNotFoundError p))"
  "read_point_cloud (stand_in fs) p = (case map_of fs p of Some (Pcd_file c) \<Rightarrow> c | _ \<Rightarrow> new_PointCloud)"
  "estimate_normals (stand_in fs) radius k c =
     (c\<lparr>normals := replicate (length (points c)) (Fin 0, Fin 0, Fin 1)\<rparr>, None)"
  "orient_normals_consistent_tangent_plane (stand_in fs) k c =
     (c, if has_normals c then None
         else Some (RuntimeError ''No normals in the PointCloud. Call EstimateNormals() first.''))"
  "create_from_point_cloud_poisson (stand_in fs) c depth =
     (if has_normals c then Inr (empty_mesh, [])
      else Inl (RuntimeError ''Point cloud has no normals''))"
  "create_from_point_cloud_ball_pivoting (stand_in fs) c radii =
     (if has_normals c then Inr empty_mesh
      else Inl (RuntimeError ''ReconstructBallPivoting requires normals''))"
  "compute_vertex_normals (stand_in fs) m = replicate (length (vertices m)) (Fin 0, Fin 0, Fin 1)"
  "compute_nearest_neighbor_distance (stand_in fs) c =
     (case reals_of (points c) of
           Some ps \<Rightarrow> map Fin (nearest_neighbor_distance ps)
         | None \<Rightarrow> replicate (length (points c)) NaN)"
  "voxel_down_sample (stand_in fs) c v =
     (case reals_of (points c) of
           Some ps \<Rightarrow> Inr (new_PointCloud\<lparr>points := map fin3 (downsample v ps)\<rparr>)
         | None \<Rightarrow> Inl (RuntimeError ''voxel_down_sample: non-finite coordinates''))"
  by (simp_all add: stand_in_def)

section \<open>Loading: which errors, and when\<close>

lemma load_point_cloud_missing:
  "\<not> path_exists L p \<Longrightarrow>
   load_point_cloud L p = Inl (FileNotFoundError (''File '' @ p @ '' does not exist!''))"
  by (simp add: load_point_cloud_def)

lemma load_point_cloud_unsupported:
  "path_exists L p \<Longrightarrow> \<not> endswith p ''.xyz'' \<Longrightarrow> \<not> endswith p ''.pcd'' \<Longrightarrow>
   load_point_cloud L p = Inl (ValueError ''Unsupported file format. Use .xyz or .pcd'')"
  by (simp add: load_point_cloud_def)

lemma load_point_cloud_pcd:
  "path_exists L p \<Longrightarrow> \<not> endswith p ''.xyz'' \<Longrightarrow> endswith p ''.pcd'' \<Longrightarrow>
   load_point_cloud L p =
     (if has_points (read_point_cloud L p) then Inr (read_point_cloud L p)
      else Inl (ValueError (''Failed to load '' @ p @ '': no points found!'')))"
  by (simp add: load_point_cloud_def Let_def)

lemma one_xyz_exists: "path_exists (stand_in demo_files) ''one.xyz''"
  by (simp add: stand_in_simps demo_files_def)

lemma one_xyz_suffix: "endswith ''one.xyz'' ''.xyz''"
  by (simp add: endswith_def)

lemma one_xyz_loadtxt:
  "loadtxt (stand_in demo_files) ''one.xyz'' = Inr (Array1 [Fin 1, Fin 2, Fin 3])"
  by (simp add: stand_in_simps demo_files_def np_loadtxt_def)

lemma one_xyz_container:
  "Vector3dVector (stand_in demo_files) (Array1 [Fin 1, Fin 2, Fin 3])
     = Inl (RuntimeError ''Unable to cast Python instance to C++ type'')"
  by (simp add: stand_in_simps o3d_Vector3dVector_def)

text \<open>
  Claim C10: for some well-formed flat-text input, a \<open>.xyz\<close> file of one line with
  three numbers, \<open>load_point_cloud\<close> raises instead of returning a one-point cloud,
  because the single row comes back as a one-dimensional array and the point container
  rejects it.  Whatever the libraries are: if the reader gives a one-dimensional array
  of three numbers and the container refuses it with \<open>e\<close>, the load ends with \<open>e\<close>.
\<close>

theorem load_point_cloud_single_row:
  assumes "path_exists L p" and "endswith p ''.xyz''"
    and "loadtxt L p = Inr (Array1 [x, y, z])"
    and "Vector3dVector L (Array1 [x, y, z]) = Inl e"
  shows "load_point_cloud L p = Inl e"
  using assms by (simp add: load_point_cloud_def)

theorem load_point_cloud_single_row_witness:
  "path_exists (stand_in demo_files) ''one.xyz'' \<and> endswith ''one.xyz'' ''.xyz''
   \<and> loadtxt (stand_in demo_files) ''one.xyz'' = Inr (Array1 [Fin 1, Fin 2, Fin 3])
   \<and> Vector3dVector (stand_in demo_files) (Array1 [Fin 1, Fin 2, Fin 3])
       = Inl (RuntimeError ''Unable to cast Python instance to C++ type'')
   \<and> load_point_cloud (stand_in demo_files) ''one.xyz''
       = Inl (RuntimeError ''Unable to cast Python instance to C++ type'')"
  using load_point_cloud_single_row [OF one_xyz_exists one_xyz_suffix one_xyz_loadtxt one_xyz_container]
    one_xyz_exists one_xyz_suffix one_xyz_loadtxt one_xyz_container
  by simp

text \<open>
  Claim C2: \<open>load_point_cloud\<close> fails with NotFoundError iff the path is missing, with
  FormatError on an unsupported extension or a malformed line, with EmptyResultError
  whenever zero points result, and otherwise returns the cloud.  The first two hold
  (\<open>load_point_cloud_missing\<close>, \<open>load_point_cloud_unsupported\<close>), and the \<open>.pcd\<close>
  branch checks for zero points (\<open>load_point_cloud_pcd\<close>).  The \<open>.xyz\<close> branch has no
  check of its own: every error there is one a library raised, and every cloud is
  whatever the container built, empty or not.
\<close>

theorem load_point_cloud_xyz_outcomes:
  assumes "path_exists L p" and "endswith p ''.xyz''"
  shows "(\<forall>e. load_point_cloud L p = Inl e \<longrightarrow>
            loadtxt L p = Inl e \<or> (\<exists>a. loadtxt L p = Inr a \<and> Vector3dVector L a = Inl e))
       \<and> (\<forall>c. load_point_cloud L p = Inr c \<longrightarrow>
            (\<exists>a. loadtxt L p = Inr a \<and> Vector3dVector L a = Inr (points c)))"
  using assms by (auto simp add: load_point_cloud_def new_PointCloud_def split: sum.splits)

theorem load_point_cloud_xyz_outcomes_witness:
  "path_exists (stand_in demo_files) ''one.xyz'' \<and> endswith ''one.xyz'' ''.xyz''
   \<and> (\<exists>e. load_point_cloud (stand_in demo_files) ''one.xyz'' = Inl e
        \<and> (\<exists>a. loadtxt (stand_in demo_files) ''one.xyz'' = Inr a
              \<and> Vector3dVector (stand_in demo_files) a = Inl e))"
proof -
  have "load_point_cloud (stand_in demo_files) ''one.xyz''
          = Inl (RuntimeError ''Unable to cast Python instance to C++ type'')"
    by (simp add: load_point_cloud_def one_xyz_exists one_xyz_suffix one_xyz_loadtxt
        one_xyz_container)
  with load_point_cloud_xyz_outcomes [OF one_xyz_exists one_xyz_suffix]
  show ?thesis using one_xyz_exists one_xyz_suffix one_xyz_loadtxt by auto
qed

section \<open>Normal estimation: one error at most, and it ends the call\<close>

lemma orient_normals_errors:
  "errors_reported (orient_normals L h pcd k) =
     (case snd (estimate_normals L (1/10) k (obj h pcd)) of
        Some e \<Rightarrow> [e]
      | None \<Rightarrow>
          (case snd (orient_normals_consistent_tangent_plane L k
                       (fst (estimate_normals L (1/10) k (obj h pcd)))) of
             Some e \<Rightarrow> [e]
           | None \<Rightarrow> []))"
  by (auto simp add: orient_normals_def errors_reported_def update_obj_def Let_def
      split: prod.splits option.splits sum.splits)


lemma orient_normals_four_points:
  "snd (orient_normals (stand_in demo_files) (store_of four_points) 0 30) = Inr 0"
  by (simp add: orient_normals_def stand_in_simps store_of_def four_points_def new_PointCloud_def
      update_obj_def has_normals_def Let_def)

text \<open>
  Claim C1, as amended: \<open>orient_normals\<close> has no per-point error and does not go on
  after an error.  It reports at most one error per call, the first exception that
  Open3D's \<open>estimate_normals\<close> or \<open>orient_normals_consistent_tangent_plane\<close> raises, and
  that exception ends the call; the second routine is not reached when the first
  raises.  When neither raises, the call reports nothing and returns the cloud it was
  given.
\<close>

theorem orient_normals_first_error_aborts:
  "errors_reported (orient_normals L h pcd k) =
     (case snd (estimate_normals L (1/10) k (obj h pcd)) of
        Some e \<Rightarrow> [e]
      | None \<Rightarrow>
          (case snd (orient_normals_consistent_tangent_plane L k
                       (fst (estimate_normals L (1/10) k (obj h pcd)))) of
             Some e \<Rightarrow> [e]
           | None \<Rightarrow> []))
   \<and> length (errors_reported (orient_normals L h pcd k)) \<le> 1
   \<and> (errors_reported (orient_normals L h pcd k) = [] \<longleftrightarrow>
        snd (orient_normals L h pcd k) = Inr pcd)"
  by (auto simp add: orient_normals_def errors_reported_def update_obj_def Let_def
      split: prod.splits option.splits sum.splits)

theorem orient_normals_first_error_aborts_witness:
  "errors_reported (orient_normals (stand_in demo_files) (store_of four_points) 0 30) = []
   \<and> snd (orient_normals (stand_in demo_files) (store_of four_points) 0 30) = Inr 0"
  using orient_normals_first_error_aborts
      [of "stand_in demo_files" "store_of four_points" 0 30, THEN conjunct2, THEN conjunct2]
    orient_normals_four_points
  by simp

text \<open>
  Claim C1, as stated, at the four-point input of Scenario B: the call would report
  four errors, one per point.  It cannot: the number of errors it reports is not 4.
\<close>

theorem orient_normals_four_points_counterexample:
  "length (errors_reported (orient_normals (stand_in demo_files) (store_of four_points) 0 30)) \<noteq> 4"
  by (simp add: orient_normals_errors stand_in_simps split: option.splits)

section \<open>Reconstruction: the library's outcome is the wrapper's outcome\<close>

lemma four_points_with_normals_has_normals: "has_normals four_points_with_normals"
  by (simp add: four_points_with_normals_def four_points_def new_PointCloud_def has_normals_def
      eval_nat_numeral)

lemma four_points_without_normals: "\<not> has_normals four_points"
  by (simp add: four_points_def new_PointCloud_def has_normals_def)

text \<open>
  Claim C3, as amended: \<open>ball_pivoting_reconstruction\<close> returns normally exactly when
  Open3D's ball-pivoting routine does.  The mesh it returns is the routine's mesh with
  vertex normals computed, same vertices and triangles, also when there are no
  triangles: an empty mesh is passed on, not turned into an error.  An exception of the
  routine is not caught; it reaches the caller.
\<close>

theorem ball_pivoting_reconstruction_outcome:
  "(\<forall>mesh. create_from_point_cloud_ball_pivoting L pcd (ball_pivoting_radii L pcd radii) = Inr mesh \<longrightarrow>
       ball_pivoting_reconstruction L pcd radii
         = Inr (mesh\<lparr>vertex_normals := compute_vertex_normals L mesh\<rparr>))
   \<and> (\<forall>e. create_from_point_cloud_ball_pivoting L pcd (ball_pivoting_radii L pcd radii) = Inl e \<longrightarrow>
       ball_pivoting_reconstruction L pcd radii = Inl e)
   \<and> (\<forall>m. ball_pivoting_reconstruction L pcd radii = Inr m \<longrightarrow>
       (\<exists>mesh. create_from_point_cloud_ball_pivoting L pcd (ball_pivoting_radii L pcd radii) = Inr mesh
          \<and> triangles m = triangles mesh \<and> vertices m = vertices mesh))"
  by (auto simp add: ball_pivoting_reconstruction_def split: sum.splits)

theorem ball_pivoting_reconstruction_outcome_witness:
  "create_from_point_cloud_ball_pivoting (stand_in demo_files) four_points_with_normals
       (ball_pivoting_radii (stand_in demo_files) four_points_with_normals default_radii)
     = Inr empty_mesh
   \<and> ball_pivoting_reconstruction (stand_in demo_files) four_points_with_normals default_radii
     = Inr empty_mesh
   \<and> \<not> has_triangles empty_mesh"
proof -
  have lib: "create_from_point_cloud_ball_pivoting (stand_in demo_files) four_points_with_normals
       (ball_pivoting_radii (stand_in demo_files) four_points_with_normals default_radii)
     = Inr empty_mesh"
    by (simp add: stand_in_simps four_points_with_normals_has_normals)
  from ball_pivoting_reconstruction_outcome
    [of "stand_in demo_files" four_points_with_normals default_radii, THEN conjunct1] lib
  show ?thesis
    by (simp add: stand_in_simps four_points_with_normals_has_normals empty_mesh_def
        has_triangles_def)
qed

text \<open>
  Claim C3, as stated, at the empty cloud of Scenario C: the call would return the
  empty-mesh signal.  The empty cloud has no normals, Open3D's routine refuses it, and
  the wrapper lets the exception through.
\<close>

theorem ball_pivoting_empty_cloud_counterexample:
  "ball_pivoting_reconstruction (stand_in demo_files) new_PointCloud default_radii
     = Inl (RuntimeError ''ReconstructBallPivoting requires normals'')"
  by (simp add: ball_pivoting_reconstruction_def stand_in_simps new_PointCloud_def has_normals_def)

text \<open>On the empty cloud the mean distance is \<open>nan\<close>, and so is every radius handed on.\<close>

lemma ball_pivoting_radii_empty_cloud:
  "ball_pivoting_radii L (new_PointCloud) default_radii = [NaN, NaN, NaN, NaN, NaN]"
  if "compute_nearest_neighbor_distance L new_PointCloud = []"
  using that
  by (simp add: ball_pivoting_radii_def np_mean_def np_sum_def default_radii_def signed_inf_def)

text \<open>
  Claim C4, as amended: whenever Open3D's Poisson routine returns a mesh, with any
  number of triangles, 0 included, \<open>poisson_reconstruction\<close> returns it with vertex
  normals computed, and does not raise.  An exception of the routine is not caught.
  The caller in creator.py checks the mesh before using it: with no triangles it only
  prints that the reconstruction failed.
\<close>

theorem poisson_reconstruction_outcome:
  "(\<forall>mesh densities. create_from_point_cloud_poisson L pcd depth = Inr (mesh, densities) \<longrightarrow>
       poisson_reconstruction L pcd depth
         = Inr (mesh\<lparr>vertex_normals := compute_vertex_normals L mesh\<rparr>))
   \<and> (\<forall>e. create_from_point_cloud_poisson L pcd depth = Inl e \<longrightarrow>
       poisson_reconstruction L pcd depth = Inl e)
   \<and> (\<forall>m. poisson_reconstruction_creator L pcd 8 = Inr m \<and> \<not> has_triangles m \<longrightarrow>
       main_poisson_step L pcd = Inr [Print ''Poisson reconstruction failed: no triangles generated.''])"
  by (auto simp add: poisson_reconstruction_def main_poisson_step_def split: sum.splits)

theorem poisson_reconstruction_outcome_witness:
  "create_from_point_cloud_poisson (stand_in demo_files) four_points_with_normals 3 = Inr (empty_mesh, [])
   \<and> poisson_reconstruction (stand_in demo_files) four_points_with_normals 3 = Inr empty_mesh
   \<and> poisson_reconstruction_creator (stand_in demo_files) four_points_with_normals 8 = Inr empty_mesh
   \<and> \<not> has_triangles empty_mesh
   \<and> main_poisson_step (stand_in demo_files) four_points_with_normals
       = Inr [Print ''Poisson reconstruction failed: no triangles generated.'']"
proof -
  have lib: "create_from_point_cloud_poisson (stand_in demo_files) four_points_with_normals d
      = Inr (empty_mesh, [])" for d
    by (simp add: stand_in_simps four_points_with_normals_has_normals)
  have cr: "poisson_reconstruction_creator (stand_in demo_files) four_points_with_normals 8
      = Inr empty_mesh"
    by (simp add: poisson_reconstruction_creator_def poisson_reconstruction_def
        four_points_with_normals_has_normals stand_in_simps empty_mesh_def)
  have em: "\<not> has_triangles empty_mesh"
    by (simp add: empty_mesh_def has_triangles_def)
  from poisson_reconstruction_outcome [of "stand_in demo_files" four_points_with_normals 3]
    lib cr em
  show ?thesis
    by (simp add: stand_in_simps four_points_with_normals_has_normals empty_mesh_def)
qed

text \<open>
  Claim C4, as stated, for a cloud that has no normals yet and a depth below 5: the
  call would return a mesh.  Open3D's routine refuses the cloud and the wrapper lets the
  exception through.
\<close>

theorem poisson_without_normals_counterexample:
  "poisson_reconstruction (stand_in demo_files) four_points 3
     = Inl (RuntimeError ''Point cloud has no normals'')"
  by (simp add: poisson_reconstruction_def stand_in_simps four_points_without_normals)

section \<open>Which cloud comes back, and what happens to the one passed in\<close>







section \<open>Down-sampling, as the specification describes it\<close>

lemma sum_list_lower:
  fixes xs :: "real list"
  shows "(\<And>x. x \<in> set xs \<Longrightarrow> a \<le> x) \<Longrightarrow> a * real (length xs) \<le> sum_list xs"
proof (induction xs)
  case Nil
  then show ?case by simp
next
  case (Cons x xs)
  then have "a \<le> x" "a * real (length xs) \<le> sum_list xs" by simp_all
  then show ?case by (simp add: algebra_simps)
qed

lemma sum_list_upper:
  fixes xs :: "real list"
  shows "xs \<noteq> [] \<Longrightarrow> (\<And>x. x \<in> set xs \<Longrightarrow> x < b) \<Longrightarrow> sum_list xs < b * real (length xs)"
proof (induction xs)
  case Nil
  then show ?case by simp
next
  case (Cons x xs)
  show ?case
  proof (cases "xs = []")
    case True
    with Cons.prems show ?thesis by simp
  next
    case False
    with Cons have "x < b" "sum_list xs < b * real (length xs)" by simp_all
    then show ?thesis by (simp add: algebra_simps)
  qed
qed

lemma floor_mean:
  fixes xs :: "real list"
  assumes v: "0 < v" and ne: "xs \<noteq> []" and cell: "\<And>x. x \<in> set xs \<Longrightarrow> \<lfloor>x / v\<rfloor> = c"
  shows "\<lfloor>(sum_list xs / real (length xs)) / v\<rfloor> = c"
proof -
  let ?n = "real (length xs)"
  have n: "0 < ?n" using ne by simp
  have lo: "of_int c * v \<le> x" and hi: "x < (of_int c + 1) * v" if "x \<in> set xs" for x
  proof -
    from cell [OF that] have "of_int c \<le> x / v" "x / v < of_int c + 1"
      by (simp_all add: floor_eq_iff)
    then show "of_int c * v \<le> x" "x < (of_int c + 1) * v"
      using v by (simp_all add: pos_le_divide_eq pos_divide_less_eq)
  qed
  have nv: "0 < ?n * v" using n v by simp
  have eq: "(sum_list xs / ?n) / v = sum_list xs / (?n * v)" by simp
  have "of_int c * v * ?n \<le> sum_list xs"
    using sum_list_lower [of xs "of_int c * v"] lo by blast
  then have "of_int c * (?n * v) \<le> sum_list xs"
    by (simp only: mult_ac)
  then have a: "of_int c \<le> (sum_list xs / ?n) / v"
    using nv by (simp only: eq pos_le_divide_eq)
  have "sum_list xs < (of_int c + 1) * v * ?n"
    using sum_list_upper [OF ne, of "(of_int c + 1) * v"] hi by blast
  then have "sum_list xs < (of_int c + 1) * (?n * v)"
    by (simp only: mult_ac)
  then have b: "(sum_list xs / ?n) / v < of_int c + 1"
    using nv by (simp only: eq pos_divide_less_eq)
  from a b show ?thesis by (simp add: floor_eq_iff)
qed

lemma voxel_index_centroid:
  assumes v: "0 < v" and ne: "ps \<noteq> []" and cell: "\<And>p. p \<in> set ps \<Longrightarrow> voxel_index v p = c"
  shows "voxel_index v (centroid ps) = c"
proof (cases c)
  case (fields i j k)
  have x: "\<lfloor>x / v\<rfloor> = i" if "x \<in> set (map fst ps)" for x
    using that cell by (force simp add: voxel_index_def fields)
  have y: "\<lfloor>y / v\<rfloor> = j" if "y \<in> set (map (fst \<circ> snd) ps)" for y
    using that cell by (force simp add: voxel_index_def fields)
  have z: "\<lfloor>z / v\<rfloor> = k" if "z \<in> set (map (snd \<circ> snd) ps)" for z
    using that cell by (force simp add: voxel_index_def fields)
  have ne': "map fst ps \<noteq> []" "map (fst \<circ> snd) ps \<noteq> []" "map (snd \<circ> snd) ps \<noteq> []"
    using ne by simp_all
  from floor_mean [OF v ne'(1) x] floor_mean [OF v ne'(2) y] floor_mean [OF v ne'(3) z]
  show ?thesis by (simp add: voxel_index_def centroid_def fields)
qed

lemma centroid_single: "centroid [p] = p"
  by (cases p) (simp add: centroid_def)

lemma filter_map_inverse:
  assumes "distinct cs" and "\<And>c. c \<in> set cs \<Longrightarrow> g (f c) = c" and "c \<in> set cs"
  shows "filter (\<lambda>p. g p = c) (map f cs) = [f c]"
  using assms
proof (induction cs)
  case Nil
  then show ?case by simp
next
  case (Cons d cs)
  show ?case
  proof (cases "c = d")
    case True
    have "filter (\<lambda>p. g p = d) (map f cs) = []"
      using Cons.prems(1,2) by (auto simp add: filter_empty_conv)
    then show ?thesis using True Cons.prems by simp
  next
    case False
    then have "c \<in> set cs" using Cons.prems by simp
    moreover have "g (f d) \<noteq> c" using Cons.prems False by auto
    ultimately show ?thesis using Cons by simp
  qed
qed

lemma downsample_cells:
  assumes v: "0 < v" and c: "c \<in> set (map (voxel_index v) ps)"
  shows "voxel_index v (centroid (filter (\<lambda>p. voxel_index v p = c) ps)) = c"
proof (rule voxel_index_centroid [OF v])
  from c show "filter (\<lambda>p. voxel_index v p = c) ps \<noteq> []"
    by (auto simp add: filter_empty_conv)
next
  fix p assume "p \<in> set (filter (\<lambda>p. voxel_index v p = c) ps)"
  then show "voxel_index v p = c" by simp
qed

lemma downsample_twice:
  assumes v: "0 < v"
  shows "downsample v (downsample v ps) = downsample v ps"
proof -
  define cs where "cs = remdups (map (voxel_index v) ps)"
  define f where "f = (\<lambda>c. centroid (filter (\<lambda>p. voxel_index v p = c) ps))"
  have out: "downsample v ps = map f cs"
    by (simp add: downsample_def cs_def f_def)
  have inv: "voxel_index v (f c) = c" if "c \<in> set cs" for c
    using that downsample_cells [OF v, of c ps] by (simp add: cs_def f_def)
  have dist: "distinct cs" by (simp add: cs_def)
  have "map (\<lambda>c. voxel_index v (f c)) cs = cs"
    by (rule map_idI) (rule inv)
  then have cells: "map (voxel_index v) (map f cs) = cs"
    by (simp add: comp_def)
  have "downsample v (map f cs)
      = map (\<lambda>c. centroid (filter (\<lambda>p. voxel_index v p = c) (map f cs))) cs"
    using dist by (simp only: downsample_def cells distinct_remdups_id)
  also have "\<dots> = map (\<lambda>c. centroid [f c]) cs"
  proof (rule map_cong [OF refl])
    fix c assume "c \<in> set cs"
    from filter_map_inverse [where g = "voxel_index v" and f = f, OF dist inv this]
    show "centroid (filter (\<lambda>p. voxel_index v p = c) (map f cs)) = centroid [f c]"
      by simp
  qed
  also have "\<dots> = map f cs"
    by (simp add: centroid_single)
  finally show ?thesis by (simp add: out)
qed

lemma length_downsample: "length (downsample v ps) \<le> length ps"
  using length_remdups_leq [of "map (voxel_index v) ps"] by (simp add: downsample_def)

lemma downsample_three_points:
  "downsample (1/100) [(1/500, 0, 0), (1/250, 0, 0), (3/200, 0, 0)] = [(3/1000, 0, 0), (3/200, 0, 0)]"
  by (simp add: downsample_def voxel_index_def centroid_def)

text \<open>
  Claim C8: for every cloud and every positive voxel size \<open>v\<close>, down-sampling is
  idempotent, and the output has no more points than the input.  This is about
  \<open>downsample\<close> as the specification describes it (a grid fixed by \<open>v\<close>, the centroid
  of each occupied cell): the centroid of the points of a cell lies in that cell, so a
  second pass finds one point per cell and leaves it where it is.
\<close>

theorem downsample_idempotent:
  assumes "0 < v"
  shows "downsample v (downsample v ps) = downsample v ps
       \<and> length (downsample v ps) \<le> length ps"
  using downsample_twice [OF assms] length_downsample by blast

theorem downsample_idempotent_witness:
  "(0 :: real) < 1/100
   \<and> downsample (1/100) [(1/500, 0, 0), (1/250, 0, 0), (3/200, 0, 0)] = [(3/1000, 0, 0), (3/200, 0, 0)]
   \<and> downsample (1/100) [(3/1000, 0, 0), (3/200, 0, 0)] = [(3/1000, 0, 0), (3/200, 0, 0)]"
  using downsample_idempotent [of "1/100" "[(1/500, 0, 0), (1/250, 0, 0), (3/200, 0, 0)]"]
  by (simp add: downsample_three_points)

section \<open>Centring and scaling\<close>

lemma foldl_np_add_Fin: "foldl np_add (Fin a) (map Fin xs) = Fin (a + sum_list xs)"
  by (induction xs arbitrary: a) (simp_all add: add.assoc)

lemma np_mean_Fin:
  "xs \<noteq> [] \<Longrightarrow> np_mean (map Fin xs) = Fin (sum_list xs / real (length xs))"
  by (simp add: np_mean_def np_sum_def foldl_np_add_Fin)

lemma map_fin3_columns:
  "map fst (map fin3 ps) = map Fin (map fst ps)"
  "map (fst \<circ> snd) (map fin3 ps) = map Fin (map (fst \<circ> snd) ps)"
  "map (snd \<circ> snd) (map fin3 ps) = map Fin (map (snd \<circ> snd) ps)"
  by (simp_all add: fin3_def split_def)

lemma mean_axis0_fin3:
  assumes "ps \<noteq> []"
  shows "mean_axis0 (map fin3 ps) = fin3 (centroid ps)"
proof -
  have "np_mean (map Fin (map g ps)) = Fin (sum_list (map g ps) / real (length ps))"
    for g :: "vec3 \<Rightarrow> real"
    using np_mean_Fin [of "map g ps"] assms by simp
  then show ?thesis
    by (simp only: mean_axis0_def map_fin3_columns centroid_def fin3_def split_conv)
qed

lemma fsub_fin3: "fsub (fin3 p) (fin3 c) = fin3 (vadd p (smul (- 1) c))"
  by (cases p, cases c) (simp add: fsub_def fin3_def np_sub_def vadd_def smul_def)

lemma np_norm_fin3: "np_norm (fin3 p) = Fin (norm3 p)"
  by (cases p) (simp add: np_norm_def fin3_def norm3_def not_less)

lemma fdiv_fin3: "s \<noteq> 0 \<Longrightarrow> fdiv (fin3 p) (Fin s) = fin3 (smul (1 / s) p)"
  by (cases p) (simp add: fdiv_def fin3_def smul_def)

lemma foldl_np_maximum_Fin: "foldl np_maximum (Fin a) (map Fin xs) = Fin (foldl max a xs)"
  by (induction xs arbitrary: a) simp_all

lemma foldl_max_Max: "foldl max a xs = Max (set (a # xs))"
proof (induction xs arbitrary: a)
  case Nil
  then show ?case by simp
next
  case (Cons x xs)
  have "foldl max a (x # xs) = Max (set (max a x # xs))"
    using Cons.IH [of "max a x"] by simp
  also have "\<dots> = Max (set (a # x # xs))"
  proof (cases "xs = []")
    case True
    then show ?thesis by (simp add: max.commute)
  next
    case False
    then show ?thesis by (simp add: max.assoc)
  qed
  finally show ?case .
qed

lemma np_max_Fin:
  "xs \<noteq> [] \<Longrightarrow> np_max (map Fin xs) = Inr (Fin (Max (set xs)))"
  by (cases xs) (simp_all add: np_max_def foldl_np_maximum_Fin foldl_max_Max)

lemma center_and_scale_fin3:
  assumes "ps \<noteq> []"
  shows "center_and_scale (map fin3 ps)
           = Inr (map (\<lambda>d. fdiv (fin3 d) (Fin (spread ps))) (centred ps))"
proof -
  have c: "map (\<lambda>p. fsub p (fin3 (centroid ps))) (map fin3 ps) = map fin3 (centred ps)"
    by (simp add: centred_def fsub_fin3)
  have n: "map np_norm (map fin3 (centred ps)) = map Fin (map norm3 (centred ps))"
    by (simp add: np_norm_fin3)
  have ne: "map norm3 (centred ps) \<noteq> []"
    using assms by (simp add: centred_def)
  have m: "np_max (map Fin (map norm3 (centred ps))) = Inr (Fin (spread ps))"
    using np_max_Fin [OF ne] by (simp only: spread_def)
  have "center_and_scale (map fin3 ps)
      = (case np_max (map np_norm (map fin3 (centred ps))) of
           Inl e \<Rightarrow> Inl e
         | Inr scale \<Rightarrow> Inr (map (\<lambda>p. fdiv p scale) (map fin3 (centred ps))))"
    by (simp only: center_and_scale_def Let_def mean_axis0_fin3 [OF assms] c)
  also have "\<dots> = Inr (map (\<lambda>p. fdiv p (Fin (spread ps))) (map fin3 (centred ps)))"
    by (simp only: n m sum.case)
  finally show ?thesis by (simp add: comp_def)
qed

lemma sum_list_shift:
  fixes g :: "'a \<Rightarrow> real"
  shows "sum_list (map (\<lambda>p. k * (g p - m)) ps) = k * (sum_list (map g ps) - real (length ps) * m)"
  by (induction ps) (simp_all add: algebra_simps)

lemma sum_list_centred:
  fixes g :: "'a \<Rightarrow> real"
  assumes "ps \<noteq> []"
  shows "sum_list (map (\<lambda>p. k * (g p - sum_list (map g ps) / real (length ps))) ps) = 0"
  using assms by (simp add: sum_list_shift)

lemma norm3_nonneg: "0 \<le> norm3 p"
  by (cases p) (simp add: norm3_def)

lemma norm3_zero: "norm3 p = 0 \<Longrightarrow> p = (0, 0, 0)"
proof (cases p)
  case (fields a b c)
  assume "norm3 p = 0"
  then have "a * a + b * b + c * c = 0"
    by (simp add: norm3_def fields)
  moreover have "0 \<le> a * a" "0 \<le> b * b" "0 \<le> c * c" by simp_all
  ultimately have "a * a = 0" "b * b = 0" "c * c = 0" by linarith+
  then show ?thesis by (simp add: fields)
qed

lemma norm3_smul: "norm3 (smul k p) = \<bar>k\<bar> * norm3 p"
proof (cases p)
  case (fields a b c)
  have "k * a * (k * a) + k * b * (k * b) + k * c * (k * c) = k\<^sup>2 * (a * a + b * b + c * c)"
    by (simp add: power2_eq_square algebra_simps)
  then show ?thesis
    by (simp add: norm3_def smul_def fields real_sqrt_mult)
qed

lemma centroid_scaled_centred:
  assumes "ps \<noteq> []"
  shows "centroid (map (smul k) (centred ps)) = (0, 0, 0)"
proof -
  have "sum_list (map (\<lambda>p. k * (g p - sum_list (map g ps) / real (length ps))) ps) = 0"
    for g :: "vec3 \<Rightarrow> real"
    by (rule sum_list_centred [OF assms])
  from this [of fst] this [of "fst \<circ> snd"] this [of "snd \<circ> snd"]
  show ?thesis
    by (simp add: centroid_def centred_def comp_def smul_def vadd_def split_def algebra_simps)
qed

lemma Max_scaled:
  fixes xs :: "real list"
  assumes "xs \<noteq> []" and "0 < s"
  shows "Max (set (map (\<lambda>x. x / s) xs)) = Max (set xs) / s"
proof -
  have "mono (\<lambda>x :: real. x / s)"
    using assms(2) by (simp add: mono_def divide_right_mono)
  from mono_Max_commute [OF this, of "set xs"] assms(1)
  show ?thesis by simp
qed

lemma center_and_scale_nondegenerate:
  assumes ne: "ps \<noteq> []" and pos: "0 < spread ps"
  shows "\<exists>qs. center_and_scale (map fin3 ps) = Inr (map fin3 qs) \<and> length qs = length ps
           \<and> centroid qs = (0, 0, 0) \<and> Max (set (map norm3 qs)) = 1"
proof -
  let ?s = "spread ps"
  let ?qs = "map (smul (1 / ?s)) (centred ps)"
  have "center_and_scale (map fin3 ps) = Inr (map fin3 ?qs)"
    using pos by (simp add: center_and_scale_fin3 [OF ne] fdiv_fin3 comp_def)
  moreover have "length ?qs = length ps"
    by (simp add: centred_def)
  moreover have "centroid ?qs = (0, 0, 0)"
    by (rule centroid_scaled_centred [OF ne])
  moreover have "Max (set (map norm3 ?qs)) = 1"
  proof -
    have a: "map norm3 ?qs = map (\<lambda>x. x / ?s) (map norm3 (centred ps))"
      using pos by (simp add: norm3_smul comp_def)
    have b: "map norm3 (centred ps) \<noteq> []"
      using ne by (simp add: centred_def)
    have "Max (set (map norm3 ?qs)) = Max (set (map norm3 (centred ps))) / ?s"
      by (simp only: a Max_scaled [OF b pos])
    then show ?thesis using pos by (simp add: spread_def)
  qed
  ultimately show ?thesis by blast
qed

lemma center_and_scale_degenerate:
  assumes ne: "ps \<noteq> []" and zero: "spread ps = 0"
  shows "center_and_scale (map fin3 ps) = Inr (replicate (length ps) (NaN, NaN, NaN))"
proof -
  have "d = (0, 0, 0)" if "d \<in> set (centred ps)" for d
  proof -
    from that have "norm3 d \<le> spread ps"
      by (simp add: spread_def)
    with zero norm3_nonneg [of d] have "norm3 d = 0" by simp
    then show ?thesis by (rule norm3_zero)
  qed
  moreover have "fdiv (fin3 (0, 0, 0)) (Fin 0) = (NaN, NaN, NaN)"
    by (simp add: fdiv_def fin3_def signed_inf_def)
  ultimately have "fdiv (fin3 d) (Fin 0) = (NaN, NaN, NaN)" if "d \<in> set (centred ps)" for d
    using that by metis
  then have "map (\<lambda>d. fdiv (fin3 d) (Fin 0)) (centred ps)
      = map (\<lambda>d. (NaN, NaN, NaN)) (centred ps)"
    by (intro map_cong refl)
  then show ?thesis
    by (simp add: center_and_scale_fin3 [OF ne] zero map_replicate_const centred_def)
qed

text \<open>
  So for a cloud of finite points that do not all coincide, the result has its centroid
  at the origin and largest norm 1 (\<open>center_and_scale_nondegenerate\<close>); when all points
  coincide the scale is 0 and every coordinate becomes \<open>nan\<close>
  (\<open>center_and_scale_degenerate\<close>); the empty cloud raises.
\<close>

lemma center_and_scale_empty:
  "center_and_scale []
     = Inl (ValueError ''zero-size array to reduction operation maximum which has no identity'')"
  by (simp add: center_and_scale_def np_max_def Let_def)

text \<open>
  Claim C6: for every nonempty cloud, centring and scaling gives centroid at the origin
  and largest norm 1.  For the cloud of the single point \<open>(1, 2, 3)\<close> the centred point
  is the origin, the scale is 0, and \<open>points /= scale\<close> leaves \<open>nan\<close> in every
  coordinate.
\<close>

theorem center_and_scale_single_point:
  "center_and_scale [(Fin 1, Fin 2, Fin 3)] = Inr [(NaN, NaN, NaN)]"
  by (simp add: center_and_scale_def mean_axis0_def np_mean_def np_sum_def fsub_def np_sub_def
      np_norm_def np_max_def fdiv_def signed_inf_def Let_def)

section \<open>Ball pivoting under a uniform rescaling of the cloud\<close>

lemma np_mul_Fin_add:
  "0 < s \<Longrightarrow> np_mul (Fin s) (np_add a b) = np_add (np_mul (Fin s) a) (np_mul (Fin s) b)"
  by (cases a; cases b) (simp_all add: signed_inf_def algebra_simps)

lemma foldl_np_add_scaled:
  "0 < s \<Longrightarrow> foldl np_add (np_mul (Fin s) a) (map (np_mul (Fin s)) xs)
     = np_mul (Fin s) (foldl np_add a xs)"
  by (induction xs arbitrary: a) (simp_all add: np_mul_Fin_add [symmetric])

lemma np_sum_scaled:
  assumes "0 < s"
  shows "np_sum (map (np_mul (Fin s)) xs) = np_mul (Fin s) (np_sum xs)"
  using foldl_np_add_scaled [OF assms, of "Fin 0" xs] by (simp add: np_sum_def)

lemma np_div_scaled:
  "0 < s \<Longrightarrow> 0 \<le> n \<Longrightarrow> np_div (np_mul (Fin s) x) (Fin n) = np_mul (Fin s) (np_div x (Fin n))"
  by (cases x) (simp_all add: signed_inf_def sgn_mult)

lemma np_mean_scaled:
  assumes "0 < s"
  shows "np_mean (map (np_mul (Fin s)) xs) = np_mul (Fin s) (np_mean xs)"
  by (simp add: np_mean_def np_sum_scaled [OF assms] np_div_scaled [OF assms])

lemma np_mul_left_commute:
  "0 < s \<Longrightarrow> np_mul r (np_mul (Fin s) a) = np_mul (Fin s) (np_mul r a)"
  by (cases r; cases a) (simp_all add: signed_inf_def sgn_mult algebra_simps)

lemma ball_pivoting_radii_scaled:
  assumes s: "0 < s"
    and d: "compute_nearest_neighbor_distance L (scale_cloud s pcd)
              = map (np_mul (Fin s)) (compute_nearest_neighbor_distance L pcd)"
  shows "ball_pivoting_radii L (scale_cloud s pcd) radii
           = map (np_mul (Fin s)) (ball_pivoting_radii L pcd radii)"
  by (simp add: ball_pivoting_radii_def Let_def d np_mean_scaled [OF s] np_mul_left_commute [OF s])

text \<open>
  The nearest-neighbour distances as the specification describes them scale with the
  cloud, and so do those of the stand-in library, which uses them.
\<close>

lemma dist3_smul: "0 \<le> s \<Longrightarrow> dist3 (smul s p) (smul s q) = s * dist3 p q"
proof (cases p, cases q)
  fix a b c d e f
  assume s: "0 \<le> s" and p: "p = (a, b, c)" and q: "q = (d, e, f)"
  have "(s * a - s * d) * (s * a - s * d) + (s * b - s * e) * (s * b - s * e)
          + (s * c - s * f) * (s * c - s * f)
      = s\<^sup>2 * ((a - d) * (a - d) + (b - e) * (b - e) + (c - f) * (c - f))"
    by (simp add: power2_eq_square algebra_simps)
  then show ?thesis
    using s by (simp add: dist3_def smul_def p q real_sqrt_mult)
qed

lemma foldl_min_scaled:
  fixes s :: real
  shows "0 \<le> s \<Longrightarrow> foldl min (s * d) (map ((*) s) ds) = s * foldl min d ds"
proof (induction ds arbitrary: d)
  case Nil
  then show ?case by simp
next
  case (Cons x ds)
  have "min (s * d) (s * x) = s * min d x"
    using Cons.prems by (simp add: min_mult_distrib_left)
  then show ?case using Cons by simp
qed

lemma min_list_or_zero_scaled:
  "0 \<le> s \<Longrightarrow> min_list_or_zero (map ((*) s) ds) = s * min_list_or_zero ds"
  by (cases ds) (simp_all add: min_list_or_zero_def foldl_min_scaled)

lemma nearest_neighbor_distance_scaled:
  assumes "0 \<le> s"
  shows "nearest_neighbor_distance (map (smul s) ps) = map ((*) s) (nearest_neighbor_distance ps)"
proof -
  have "min_list_or_zero (map (\<lambda>j. dist3 (map (smul s) ps ! i) (map (smul s) ps ! j))
                                (filter (\<lambda>j. j \<noteq> i) [0 ..< length ps]))
      = s * min_list_or_zero (map (\<lambda>j. dist3 (ps ! i) (ps ! j)) (filter (\<lambda>j. j \<noteq> i) [0 ..< length ps]))"
    if "i < length ps" for i
  proof -
    have "map (\<lambda>j. dist3 (map (smul s) ps ! i) (map (smul s) ps ! j))
              (filter (\<lambda>j. j \<noteq> i) [0 ..< length ps])
        = map ((*) s) (map (\<lambda>j. dist3 (ps ! i) (ps ! j)) (filter (\<lambda>j. j \<noteq> i) [0 ..< length ps]))"
      using that assms by (simp add: dist3_smul)
    then show ?thesis
      by (simp only: min_list_or_zero_scaled [OF assms])
  qed
  then show ?thesis
    by (simp add: nearest_neighbor_distance_def)
qed

lemma real_of_np_mul:
  "s \<noteq> 0 \<Longrightarrow> real_of_npfloat (np_mul (Fin s) x) = map_option ((*) s) (real_of_npfloat x)"
  by (cases x) (simp_all add: signed_inf_def sgn_eq_0_iff)

lemma vec3_of_fscale:
  "s \<noteq> 0 \<Longrightarrow> vec3_of (fscale (Fin s) p) = map_option (smul s) (vec3_of p)"
  by (cases p) (auto simp add: vec3_of_def fscale_def real_of_np_mul smul_def split: option.splits)

lemma vec3_of_fscale_None:
  "s \<noteq> 0 \<Longrightarrow> (vec3_of (fscale (Fin s) p) = None) = (vec3_of p = None)"
  by (simp add: vec3_of_fscale)

lemma reals_of_scaled:
  assumes "s \<noteq> 0"
  shows "reals_of (map (fscale (Fin s)) ps) = map_option (map (smul s)) (reals_of ps)"
proof -
  have all: "(\<forall>p \<in> set (map (fscale (Fin s)) ps). vec3_of p \<noteq> None)
      = (\<forall>p \<in> set ps. vec3_of p \<noteq> None)"
    by (simp add: vec3_of_fscale_None [OF assms] del: not_None_eq)
  show ?thesis
  proof (cases "\<forall>p \<in> set ps. vec3_of p \<noteq> None")
    case True
    have "the (vec3_of (fscale (Fin s) p)) = smul s (the (vec3_of p))" if "p \<in> set ps" for p
      using True that assms by (auto simp add: vec3_of_fscale)
    then have "map (the \<circ> vec3_of) (map (fscale (Fin s)) ps) = map (smul s) (map (the \<circ> vec3_of) ps)"
      by simp
    moreover have "reals_of (map (fscale (Fin s)) ps)
        = Some (map (the \<circ> vec3_of) (map (fscale (Fin s)) ps))"
      unfolding reals_of_def using True all by (intro if_P) blast
    moreover have "reals_of ps = Some (map (the \<circ> vec3_of) ps)"
      unfolding reals_of_def using True by (intro if_P)
    ultimately show ?thesis by (simp del: map_map)
  next
    case False
    have "reals_of (map (fscale (Fin s)) ps) = None"
      unfolding reals_of_def using False all by (intro if_not_P) blast
    moreover have "reals_of ps = None"
      unfolding reals_of_def using False by (intro if_not_P)
    ultimately show ?thesis by simp
  qed
qed

lemma stand_in_distance_scaled:
  assumes "0 < s"
  shows "compute_nearest_neighbor_distance (stand_in fs) (scale_cloud s pcd)
           = map (np_mul (Fin s)) (compute_nearest_neighbor_distance (stand_in fs) pcd)"
proof (cases "reals_of (points pcd)")
  case None
  then show ?thesis
    using assms by (simp add: stand_in_simps scale_cloud_def reals_of_scaled)
next
  case (Some ps)
  then show ?thesis
    using assms
    by (simp add: stand_in_simps scale_cloud_def reals_of_scaled nearest_neighbor_distance_scaled)
qed

lemma has_normals_scale_cloud: "has_normals (scale_cloud s pcd) = has_normals pcd"
  by (simp add: has_normals_def scale_cloud_def)

section \<open>The pivoting routine under a uniform rescaling\<close>

lemma vsub_smul: "vsub (smul s a) (smul s b) = smul s (vsub a b)"
  by (cases a, cases b) (simp add: vsub_def smul_def algebra_simps)

lemma vadd_smul: "vadd (smul s a) (smul s b) = smul s (vadd a b)"
  by (cases a, cases b) (simp add: vadd_def smul_def algebra_simps)

lemma smul_smul: "smul s (smul t a) = smul (s * t) a"
  by (cases a) (simp add: smul_def algebra_simps)

lemma dot3_smul: "dot3 (smul s a) (smul t b) = s * t * dot3 a b"
  by (cases a, cases b) (simp add: dot3_def smul_def algebra_simps)

lemma cross3_smul: "cross3 (smul s a) (smul t b) = smul (s * t) (cross3 a b)"
  by (cases a, cases b) (simp add: cross3_def smul_def algebra_simps)

lemma circumcenter_smul:
  assumes "s \<noteq> 0"
  shows "circumcenter (smul s a) (smul s b) (smul s c) = smul s (circumcenter a b c)"
proof -
  define u where "u = vsub b a"
  define v where "v = vsub c a"
  define w where "w = cross3 u v"
  define z where "z = vadd (smul (dot3 u u) (cross3 v w)) (smul (dot3 v v) (cross3 w u))"
  have k: "s * s * (s * (s * s)) = s * s * s * s * s" by simp
  have "vadd (smul (dot3 (smul s u) (smul s u)) (cross3 (smul s v) (smul (s * s) w)))
             (smul (dot3 (smul s v) (smul s v)) (cross3 (smul (s * s) w) (smul s u)))
        = smul (s * s * s * s * s) z"
    by (simp add: dot3_smul cross3_smul smul_smul z_def vadd_smul [symmetric] mult_ac)
  moreover have "1 / (2 * dot3 (smul (s * s) w) (smul (s * s) w)) * (s * s * s * s * s)
      = s * (1 / (2 * dot3 w w))"
    using assms by (simp add: dot3_smul field_simps)
  ultimately have "smul (1 / (2 * dot3 (smul (s * s) w) (smul (s * s) w)))
     (vadd (smul (dot3 (smul s u) (smul s u)) (cross3 (smul s v) (smul (s * s) w)))
             (smul (dot3 (smul s v) (smul s v)) (cross3 (smul (s * s) w) (smul s u))))
      = smul s (smul (1 / (2 * dot3 w w)) z)"
    by (simp only: smul_smul)
  then show ?thesis
    by (simp add: circumcenter_def Let_def vsub_smul cross3_smul vadd_smul
        u_def [symmetric] v_def [symmetric] w_def [symmetric] z_def [symmetric])
qed

lemma raise_center_smul:
  assumes s: "0 < s"
  shows "raise_center (smul (s * s) w) (smul s cc) (s * s * hh)
           = map_option (smul s) (raise_center w cc hh)"
proof -
  have s0: "s \<noteq> 0" using s by simp
  have ww: "dot3 (smul (s * s) w) (smul (s * s) w) = (s * s) * (s * s) * dot3 w w"
    by (simp add: dot3_smul)
  have zero: "((s * s) * (s * s) * dot3 w w = 0) = (dot3 w w = 0)"
    using s0 by simp
  have neg: "(s * s * hh < 0) = (hh < 0)"
    using s by (simp add: mult_less_0_iff zero_less_mult_iff)
  have root: "sqrt (s * s * hh / ((s * s) * (s * s) * dot3 w w)) * (s * s) = s * sqrt (hh / dot3 w w)"
  proof -
    have "s * s * hh / ((s * s) * (s * s) * dot3 w w) = (hh / dot3 w w) / (s * s)"
      using s0 by (simp add: field_simps)
    moreover have "sqrt ((hh / dot3 w w) / (s * s)) = sqrt (hh / dot3 w w) / sqrt (s * s)"
      by (rule real_sqrt_divide)
    moreover have "sqrt (s * s) = s"
      using s by simp
    ultimately have "sqrt (s * s * hh / ((s * s) * (s * s) * dot3 w w)) = sqrt (hh / dot3 w w) / s"
      by simp
    then show ?thesis using s0 by simp
  qed
  have off: "vadd (smul s cc) (smul (sqrt (s * s * hh / ((s * s) * (s * s) * dot3 w w))) (smul (s * s) w))
      = smul s (vadd cc (smul (sqrt (hh / dot3 w w)) w))"
    by (simp only: smul_smul root vadd_smul [symmetric])
  show ?thesis
    by (simp only: raise_center_def ww zero neg off option.map if_distrib [of "map_option (smul s)"])
qed

lemma ball_center_smul:
  assumes s: "0 < s"
  shows "ball_center (smul s a) (smul s b) (smul s c) (s * r)
           = map_option (smul s) (ball_center a b c r)"
proof -
  define w where "w = cross3 (vsub b a) (vsub c a)"
  define cc where "cc = circumcenter a b c"
  define hh where "hh = r * r - dot3 (vsub cc a) (vsub cc a)"
  have s0: "s \<noteq> 0" using s by simp
  have hh': "s * r * (s * r) - dot3 (smul s (vsub cc a)) (smul s (vsub cc a)) = s * s * hh"
    by (simp add: dot3_smul hh_def algebra_simps)
  have "ball_center (smul s a) (smul s b) (smul s c) (s * r)
      = raise_center (smul (s * s) w) (smul s cc) (s * s * hh)"
    by (simp only: ball_center_def Let_def vsub_smul cross3_smul circumcenter_smul [OF s0]
        w_def [symmetric] cc_def [symmetric] hh')
  also have "\<dots> = map_option (smul s) (raise_center w cc hh)"
    by (rule raise_center_smul [OF s])
  also have "raise_center w cc hh = ball_center a b c r"
    by (simp only: ball_center_def Let_def w_def cc_def hh_def)
  finally show ?thesis .
qed

lemma turn_key_smul:
  assumes s: "0 < s"
  shows "turn_key (smul s u0) (smul s ux) (smul s axis) = turn_key u0 ux axis"
proof -
  have cs: "dot3 (smul s u0) (smul s ux) / dot3 (smul s u0) (smul s u0) = dot3 u0 ux / dot3 u0 u0"
    using s by (simp add: dot3_smul)
  have sn: "(0 \<le> dot3 (cross3 (smul s u0) (smul s ux)) (smul s axis))
      = (0 \<le> dot3 (cross3 u0 ux) axis)"
  proof -
    define k where "k = s * s * s"
    have k: "0 < k" using s by (simp add: k_def)
    have "dot3 (cross3 (smul s u0) (smul s ux)) (smul s axis) = k * dot3 (cross3 u0 ux) axis"
      by (simp add: cross3_smul dot3_smul k_def)
    then show ?thesis using k by (simp add: zero_le_mult_iff)
  qed
  show ?thesis
    by (simp only: turn_key_def Let_def cs sn)
qed

lemma pivot_key_smul:
  assumes s: "0 < s"
  shows "pivot_key (smul s p) (smul s q) (smul s c0) (smul s cx) = pivot_key p q c0 cx"
proof -
  have m: "smul (1/2) (vadd (smul s p) (smul s q)) = smul s (smul (1/2) (vadd p q))"
    by (simp add: vadd_smul smul_smul mult.commute)
  show ?thesis
    by (simp only: pivot_key_def Let_def m vsub_smul turn_key_smul [OF s])
qed

lemma dot3_smul_left: "dot3 (smul s a) b = s * dot3 a b"
  by (cases a, cases b) (simp add: dot3_def smul_def algebra_simps)

lemma dist2_smul: "dist2 (smul s p) (smul s q) = s * s * dist2 p q"
  by (simp add: dist2_def vsub_smul dot3_smul)

lemma sq_le_scaled:
  fixes s :: real
  assumes "0 < s"
  shows "(s * r * (s * r) \<le> s * s * d) = (r * r \<le> d)"
proof -
  have "s * r * (s * r) = (s * s) * (r * r)" by simp
  moreover have "0 < s * s" using assms by simp
  ultimately show ?thesis by (simp only: mult_le_cancel_left_pos)
qed

lemma ball_empty_scaled:
  assumes "0 < s"
  shows "ball_empty (map (smul s) ps) touching (smul s c) (s * r) = ball_empty ps touching c r"
  by (simp add: ball_empty_def dist2_smul sq_le_scaled [OF assms])

lemma valid_seed_scaled:
  assumes s: "0 < s"
  shows "valid_seed (map (smul s) ps) ns (s * r) t = valid_seed ps ns r t"
proof (cases t)
  case (fields i j k)
  show ?thesis
  proof (cases "i < length ps \<and> j < length ps \<and> k < length ps")
    case False
    then show ?thesis by (auto simp add: valid_seed_def fields)
  next
    case True
    define k2 where "k2 = s * s"
    have k2: "0 < k2" using s by (simp add: k2_def)
    have or: "(0 < dot3 (cross3 (vsub (smul s (ps ! j)) (smul s (ps ! i)))
                              (vsub (smul s (ps ! k)) (smul s (ps ! i)))) nn)
          = (0 < dot3 (cross3 (vsub (ps ! j) (ps ! i)) (vsub (ps ! k) (ps ! i))) nn)" for nn
    proof -
      have "dot3 (cross3 (vsub (smul s (ps ! j)) (smul s (ps ! i)))
                              (vsub (smul s (ps ! k)) (smul s (ps ! i)))) nn
          = k2 * dot3 (cross3 (vsub (ps ! j) (ps ! i)) (vsub (ps ! k) (ps ! i))) nn"
        by (simp add: vsub_smul cross3_smul dot3_smul_left k2_def)
      then show ?thesis using k2 by (simp add: zero_less_mult_iff)
    qed
    show ?thesis
      using True
      by (simp add: valid_seed_def fields or ball_center_smul [OF s] ball_empty_scaled [OF s]
          split: option.splits)
  qed
qed

lemma first_min_cong:
  "(\<And>x. x \<in> set xs \<Longrightarrow> f x = g x) \<Longrightarrow> first_min f xs = first_min g xs"
proof (induction xs)
  case Nil
  then show ?case by simp
next
  case (Cons x xs)
  then have "first_min f xs = first_min g xs" by simp
  moreover have "first_min f xs = Some y \<Longrightarrow> y \<in> set xs" for y
    by (induction xs arbitrary: y) (auto split: option.splits if_splits)
  ultimately show ?case using Cons.prems by (auto split: option.splits)
qed

lemma pivot_candidates_scaled:
  assumes s: "0 < s" and "p < length ps" "q < length ps"
  shows "pivot_candidates (map (smul s) ps) (s * r) p q opp (smul s c0) = pivot_candidates ps r p q opp c0"
  unfolding pivot_candidates_def length_map
  using assms(2,3)
  by (intro filter_cong refl) (simp add: ball_center_smul [OF s] dist2_smul sq_le_scaled [OF s])

lemma pivot_candidates_range: "x \<in> set (pivot_candidates ps r p q opp c0) \<Longrightarrow> x < length ps"
  by (simp add: pivot_candidates_def)

lemma pivot_candidates_center:
  "x \<in> set (pivot_candidates ps r p q opp c0) \<Longrightarrow> ball_center (ps ! q) (ps ! p) (ps ! x) r \<noteq> None"
  by (simp add: pivot_candidates_def)

lemma pivot_target_scaled:
  assumes s: "0 < s"
  shows "pivot_target (map (smul s) ps) (s * r) p q opp = pivot_target ps r p q opp"
proof (cases "p < length ps \<and> q < length ps \<and> opp < length ps")
  case False
  then show ?thesis by (auto simp add: pivot_target_def)
next
  case True
  show ?thesis
  proof (cases "ball_center (ps ! p) (ps ! q) (ps ! opp) r")
    case None
    then show ?thesis using True by (simp add: pivot_target_def ball_center_smul [OF s])
  next
    case (Some c0)
    have keys: "pivot_key (smul s (ps ! p)) (smul s (ps ! q)) (smul s c0)
                  (the (ball_center (map (smul s) ps ! q) (map (smul s) ps ! p) (map (smul s) ps ! x) (s * r)))
        = pivot_key (ps ! p) (ps ! q) c0 (the (ball_center (ps ! q) (ps ! p) (ps ! x) r))"
      if "x \<in> set (pivot_candidates ps r p q opp c0)" for x
    proof -
      from pivot_candidates_center [OF that] obtain cx
        where cx: "ball_center (ps ! q) (ps ! p) (ps ! x) r = Some cx" by auto
      show ?thesis
        using True pivot_candidates_range [OF that]
        by (simp add: ball_center_smul [OF s] cx pivot_key_smul [OF s])
    qed
    have "pivot_target (map (smul s) ps) (s * r) p q opp
        = first_min (\<lambda>x. pivot_key (smul s (ps ! p)) (smul s (ps ! q)) (smul s c0)
                  (the (ball_center (map (smul s) ps ! q) (map (smul s) ps ! p) (map (smul s) ps ! x) (s * r))))
            (pivot_candidates ps r p q opp c0)"
      using True Some
      by (simp add: pivot_target_def ball_center_smul [OF s] pivot_candidates_scaled [OF s])
    also have "\<dots> = first_min (\<lambda>x. pivot_key (ps ! p) (ps ! q) c0 (the (ball_center (ps ! q) (ps ! p) (ps ! x) r)))
            (pivot_candidates ps r p q opp c0)"
      by (rule first_min_cong) (rule keys)
    also have "\<dots> = pivot_target ps r p q opp"
      using True Some by (simp add: pivot_target_def)
    finally show ?thesis .
  qed
qed

lemma pivoting_passes_scaled:
  assumes "\<And>r. valid' (s * r) = valid r" and "\<And>r. tgt' (s * r) = tgt r"
  shows "pivoting_passes valid' tgt' n (map ((*) s) rs) st = pivoting_passes valid tgt n rs st"
  using assms by (induction rs arbitrary: st) simp_all

lemma insort_scaled:
  fixes s :: real
  assumes "0 < s"
  shows "insort (s * x) (map ((*) s) ys) = map ((*) s) (insort x ys)"
  using assms by (induction ys) simp_all

lemma sort_scaled:
  fixes s :: real
  assumes "0 < s"
  shows "sort (map ((*) s) rs) = map ((*) s) (sort rs)"
  by (induction rs) (simp_all add: insort_scaled [OF assms])

lemma ball_pivoting_triangles_scaled:
  assumes s: "0 < s"
  shows "ball_pivoting_triangles (map (smul s) ps) ns (map ((*) s) radii)
           = ball_pivoting_triangles ps ns radii"
proof -
  have v: "valid_seed (map (smul s) ps) ns (s * r) = valid_seed ps ns r" for r
    by (rule ext) (rule valid_seed_scaled [OF s])
  have t: "pivot_target (map (smul s) ps) (s * r) = pivot_target ps r" for r
    by (intro ext) (rule pivot_target_scaled [OF s])
  show ?thesis
    by (simp only: ball_pivoting_triangles_def length_map sort_scaled [OF s]
        pivoting_passes_scaled [of "valid_seed (map (smul s) ps) ns" s "valid_seed ps ns"
          "pivot_target (map (smul s) ps)" "pivot_target ps", OF v t])
qed

lemma positive_radii_scaled:
  assumes "0 < s"
  shows "positive_radii (map (np_mul (Fin s)) rs) = map ((*) s) (positive_radii rs)"
proof (induction rs)
  case Nil
  then show ?case by simp
next
  case (Cons x rs)
  then show ?case
    using assms by (cases x) (simp_all add: signed_inf_def zero_less_mult_iff)
qed

lemma pivoting_routine_scaled:
  assumes s: "0 < s"
  shows "triangle_count (pivoting_routine (scale_cloud s c) (map (np_mul (Fin s)) rs))
           = triangle_count (pivoting_routine c rs)"
proof -
  have s0: "s \<noteq> 0" using s by simp
  have p: "reals_of (points (scale_cloud s c)) = map_option (map (smul s)) (reals_of (points c))"
    by (simp add: scale_cloud_def reals_of_scaled [OF s0])
  have n: "normals (scale_cloud s c) = normals c"
    by (simp add: scale_cloud_def)
  show ?thesis
    by (simp add: pivoting_routine_def has_normals_scale_cloud p n triangle_count_def
        positive_radii_scaled [OF s] ball_pivoting_triangles_scaled [OF s]
        split: option.splits)
qed

section \<open>The pivoting routine on three points\<close>

lemma upt3: "[0 ..< 3] = [0, Suc 0, 2]"
  by (simp add: eval_nat_numeral upt_rec)

lemma three_points_avail:
  "filter (\<lambda>t. fst t < fst (snd t) \<and> fst (snd t) < snd (snd t)) (all_triples 3) = [(0, Suc 0, 2)]"
  by (simp add: all_triples_def upt3)

lemma three_points_center:
  "ball_center (0, 0, 0) (1, 0, 0) (0, 1, 0) 1 = Some (1/2, 1/2, sqrt (1/2))"
  by (simp add: ball_center_def circumcenter_def raise_center_def vsub_def vadd_def smul_def
      dot3_def cross3_def Let_def)

lemma three_points_seed:
  "find_seed (valid_seed [(0, 0, 0), (1, 0, 0), (0, 1, 0)] [(0, 0, 1), (0, 0, 1), (0, 0, 1)] 1)
     [(0, Suc 0, 2)] 3 = Some (0, Suc 0, 2)"
  by (simp add: find_seed_def all_triples_def upt3 valid_seed_def three_points_center ball_empty_def
      sort3_def vsub_def vadd_def smul_def dot3_def cross3_def)

lemma three_points_no_target:
  assumes "p < 3" "q < 3" "opp < 3" "p \<noteq> q" "q \<noteq> opp" "p \<noteq> opp"
  shows "pivot_target [a, b, c] r p q opp = None"
proof -
  have cover: "x = p \<or> x = q \<or> x = opp" if "x < 3" for x
    using that assms by linarith
  have "pivot_candidates [a, b, c] r p q opp c0 = []" for c0
    unfolding pivot_candidates_def filter_empty_conv
  proof (intro ballI)
    fix x
    assume "x \<in> set [0 ..< length [a, b, c]]"
    then have "x < 3" by auto
    from cover [OF this]
    show "\<not> (x \<noteq> p \<and> x \<noteq> q \<and> x \<noteq> opp
              \<and> ball_center ([a, b, c] ! q) ([a, b, c] ! p) ([a, b, c] ! x) r \<noteq> None
              \<and> r * r \<le> dist2 ([a, b, c] ! x) c0)"
      by blast
  qed
  then show ?thesis
    by (simp only: pivot_target_def first_min.simps option.case_eq_if if_cancel split: if_splits)
qed

lemma three_points_no_seed:
  "find_seed (valid_seed [(0, 0, 0), (1, 0, 0), (0, 1, 0)] [(0, 0, 1), (0, 0, 1), (0, 0, 1)] (1/2))
     [(0, Suc 0, 2)] 3 = None"
  by (simp add: find_seed_def all_triples_def upt3 valid_seed_def ball_empty_def
      ball_center_def circumcenter_def raise_center_def Let_def
      sort3_def vsub_def vadd_def smul_def dot3_def cross3_def)

lemma three_points_pass:
  "pivoting_pass (valid_seed [(0, 0, 0), (1, 0, 0), (0, 1, 0)] [(0, 0, 1), (0, 0, 1), (0, 0, 1)] 1)
     (pivot_target [(0, 0, 0), (1, 0, 0), (0, 1, 0)] 1) 3 ([(0, Suc 0, 2)], [], [])
     = ([], [(0, Suc 0, 2)], [(0, Suc 0, 2), (Suc 0, 2, 0), (2, 0, Suc 0)])"
  by (simp add: pivoting_pass_def three_points_seed sort3_def glue_def three_points_no_target)

lemma three_points_small_pass:
  "pivoting_pass (valid_seed [(0, 0, 0), (1, 0, 0), (0, 1, 0)] [(0, 0, 1), (0, 0, 1), (0, 0, 1)] (1/2))
     (pivot_target [(0, 0, 0), (1, 0, 0), (0, 1, 0)] (1/2)) 3 ([(0, Suc 0, 2)], [], [])
     = ([(0, Suc 0, 2)], [], [])"
  by (simp add: pivoting_pass_def three_points_no_seed)

lemma three_points_triangles:
  "ball_pivoting_triangles [(0, 0, 0), (1, 0, 0), (0, 1, 0)] [(0, 0, 1), (0, 0, 1), (0, 0, 1)] [1]
     = [(0, Suc 0, 2)]"
proof -
  have len: "length [(0, 0, 0), (1, 0, 0), (0 :: real, 1 :: real, 0 :: real)] = 3" by simp
  have srt: "sort [1 :: real] = [1]" by simp
  show ?thesis
    by (simp only: ball_pivoting_triangles_def len srt three_points_avail pivoting_passes.simps
        three_points_pass prod.case)
qed

lemma three_points_small_radius:
  "ball_pivoting_triangles [(0, 0, 0), (1, 0, 0), (0, 1, 0)] [(0, 0, 1), (0, 0, 1), (0, 0, 1)] [1/2]
     = []"
proof -
  have len: "length [(0, 0, 0), (1, 0, 0), (0 :: real, 1 :: real, 0 :: real)] = 3" by simp
  have srt: "sort [1/2 :: real] = [1/2]" by simp
  show ?thesis
    by (simp only: ball_pivoting_triangles_def len srt three_points_avail pivoting_passes.simps
        three_points_small_pass prod.case)
qed

lemma pivoting_library_simps:
  "create_from_point_cloud_ball_pivoting (pivoting_library fs) = pivoting_routine"
  "compute_nearest_neighbor_distance (pivoting_library fs) = compute_nearest_neighbor_distance (stand_in fs)"
  "compute_vertex_normals (pivoting_library fs) = compute_vertex_normals (stand_in fs)"
  by (simp_all add: pivoting_library_def)

lemma triangle_count_ball_pivoting_reconstruction:
  "triangle_count (ball_pivoting_reconstruction L c rs)
     = triangle_count (create_from_point_cloud_ball_pivoting L c (ball_pivoting_radii L c rs))"
  by (simp add: ball_pivoting_reconstruction_def triangle_count_def split: sum.splits)

lemma three_points_reals:
  "reals_of (points three_points) = Some [(0, 0, 0), (1, 0, 0), (0, 1, 0)]"
  "reals_of (normals three_points) = Some [(0, 0, 1), (0, 0, 1), (0, 0, 1)]"
  "has_normals three_points"
  by (simp_all add: three_points_def reals_of_def vec3_of_def has_normals_def)

lemma three_points_distance:
  "nearest_neighbor_distance [(0, 0, 0), (1, 0, 0), (0, 1, 0)] = [1, 1, 1]"
  by (simp add: nearest_neighbor_distance_def min_list_or_zero_def dist3_def upt_rec [of 0]
      upt_rec [of 1] upt_rec [of 2] upt_rec [of "Suc 0"])

lemma three_points_radii:
  "ball_pivoting_radii (pivoting_library fs) three_points [Fin r] = [Fin r]"
  by (simp add: ball_pivoting_radii_def pivoting_library_simps stand_in_simps three_points_reals
      three_points_distance np_mean_def np_sum_def)

text \<open>
  Three points at unit distance, with the relative radius 1: the wrapper hands the
  radius 1 to the routine, which joins them in one triangle.
\<close>

lemma three_points_one_triangle:
  "triangle_count (ball_pivoting_reconstruction (pivoting_library fs) three_points [Fin 1]) = Some 1"
  unfolding triangle_count_ball_pivoting_reconstruction three_points_radii pivoting_library_simps
  by (simp add: pivoting_routine_def three_points_reals three_points_triangles triangle_count_def)

text \<open>
  The count depends on the radius: a ball of radius \<open>1/2\<close> cannot touch the three
  points together.  So it matters that the wrapper rescales the radii: the routine
  given the cloud scaled by 2 and the radius 1 of the unscaled run finds no triangle.
\<close>

lemma three_points_small_ball:
  "triangle_count (ball_pivoting_reconstruction (pivoting_library fs) three_points [Fin (1/2)]) = Some 0"
  unfolding triangle_count_ball_pivoting_reconstruction three_points_radii pivoting_library_simps
  by (simp add: pivoting_routine_def three_points_reals three_points_small_radius triangle_count_def)

lemma three_points_radius_not_rescaled:
  "triangle_count (pivoting_routine (scale_cloud 2 three_points) [Fin 1]) = Some 0"
proof -
  have "triangle_count (pivoting_routine (scale_cloud 2 three_points) (map (np_mul (Fin 2)) [Fin (1/2)]))
      = triangle_count (pivoting_routine three_points [Fin (1/2)])"
    by (rule pivoting_routine_scaled) simp
  moreover have "map (np_mul (Fin 2)) [Fin (1/2)] = [Fin 1]"
    by simp
  moreover have "triangle_count (pivoting_routine three_points [Fin (1/2)]) = Some 0"
    by (simp add: pivoting_routine_def three_points_reals three_points_small_radius triangle_count_def)
  ultimately show ?thesis by simp
qed

section \<open>Ball pivoting of a rescaled cloud\<close>

text \<open>
  Claim C7: for every cloud, every fixed list of relative radii and every scale factor
  \<open>s > 0\<close>, ball pivoting on the cloud scaled by \<open>s\<close> gives the same triangle count as
  on the cloud itself, because the radii are rescaled by the average nearest-neighbour
  distance.  The library's nearest-neighbour distances and its pivoting routine are the
  ones the specification describes (\<open>pivoting_library\<close>), on coordinates that are real
  numbers, so the two counts are equal exactly.  The wrapper hands the routine radii
  that are \<open>s\<close> times those of the unscaled run, also when some are \<open>nan\<close> or infinite,
  and the routine, given the cloud and the radii both scaled by \<open>s\<close>, takes the same
  decision at every seed and every pivot.  When the routine raises, for a cloud without
  normals or with a coordinate that is not finite, it raises in both runs.
\<close>

theorem ball_pivoting_scale_invariant:
  assumes s: "0 < s"
  shows "triangle_count (ball_pivoting_reconstruction (pivoting_library fs) (scale_cloud s pcd) radii)
           = triangle_count (ball_pivoting_reconstruction (pivoting_library fs) pcd radii)"
proof -
  have d: "compute_nearest_neighbor_distance (pivoting_library fs) (scale_cloud s pcd)
             = map (np_mul (Fin s)) (compute_nearest_neighbor_distance (pivoting_library fs) pcd)"
    by (simp only: pivoting_library_simps stand_in_distance_scaled [OF s])
  show ?thesis
    by (simp only: triangle_count_ball_pivoting_reconstruction ball_pivoting_radii_scaled [OF s d]
        pivoting_library_simps pivoting_routine_scaled [OF s])
qed

theorem ball_pivoting_scale_invariant_witness:
  "(0 :: real) < 2
   \<and> triangle_count (ball_pivoting_reconstruction (pivoting_library demo_files)
          (scale_cloud 2 three_points) [Fin 1])
       = triangle_count (ball_pivoting_reconstruction (pivoting_library demo_files)
          three_points [Fin 1])
   \<and> triangle_count (ball_pivoting_reconstruction (pivoting_library demo_files)
          (scale_cloud 2 three_points) [Fin 1]) = Some 1"
proof -
  have s: "(0 :: real) < 2" by simp
  from ball_pivoting_scale_invariant [OF s, where fs = demo_files and pcd = three_points
      and radii = "[Fin 1]"]
    three_points_one_triangle [of demo_files] s
  show ?thesis by simp
qed

end
